theory Spec2Isabelle
  imports Complex_Main "HOL-Library.Multiset"
begin

section \<open>JavaScript numbers\<close>

text \<open>
  A JavaScript number is an IEEE-754 double. The model keeps the special values the
  program relies on (\<open>Infinity\<close> as the bound of the last pricing tier and as the ROI
  sentinel, the result of a division by zero, \<open>NaN\<close>) and takes every finite value as an
  exact real: rounding, overflow to infinity and the sign of zero are not modelled.
  The operations follow the IEEE rules for the special values. Where the number a
  function returns depends on the rounding (\<open>calculateROI\<close>, \<open>parseInt\<close>), the function is
  modelled on the doubles of the section on double-precision arithmetic below.
\<close>

datatype jsnum = Fin real | PInf | NInf | NaN

fun jneg :: "jsnum \<Rightarrow> jsnum" where
  "jneg (Fin a) = Fin (- a)"
| "jneg PInf = NInf"
| "jneg NInf = PInf"
| "jneg NaN = NaN"

fun jadd :: "jsnum \<Rightarrow> jsnum \<Rightarrow> jsnum" where
  "jadd (Fin a) (Fin b) = Fin (a + b)"
| "jadd NaN _ = NaN"
| "jadd _ NaN = NaN"
| "jadd PInf NInf = NaN"
| "jadd NInf PInf = NaN"
| "jadd PInf _ = PInf"
| "jadd _ PInf = PInf"
| "jadd NInf _ = NInf"
| "jadd _ NInf = NInf"

definition jsub :: "jsnum \<Rightarrow> jsnum \<Rightarrow> jsnum" where
  "jsub a b = jadd a (jneg b)"

text \<open>The sign of a product or quotient with an infinite operand; zero counts as \<open>+0\<close>.\<close>

definition signed_inf :: "bool \<Rightarrow> jsnum" where
  "signed_inf positive = (if positive then PInf else NInf)"

fun jmul :: "jsnum \<Rightarrow> jsnum \<Rightarrow> jsnum" where
  "jmul (Fin a) (Fin b) = Fin (a * b)"
| "jmul NaN _ = NaN"
| "jmul _ NaN = NaN"
| "jmul (Fin a) PInf = (if a = 0 then NaN else signed_inf (0 < a))"
| "jmul (Fin a) NInf = (if a = 0 then NaN else signed_inf (a < 0))"
| "jmul PInf (Fin b) = (if b = 0 then NaN else signed_inf (0 < b))"
| "jmul NInf (Fin b) = (if b = 0 then NaN else signed_inf (b < 0))"
| "jmul PInf PInf = PInf"
| "jmul NInf NInf = PInf"
| "jmul PInf NInf = NInf"
| "jmul NInf PInf = NInf"

fun jdiv :: "jsnum \<Rightarrow> jsnum \<Rightarrow> jsnum" where
  "jdiv (Fin a) (Fin b) =
     (if b = 0 then (if a = 0 then NaN else signed_inf (0 < a)) else Fin (a / b))"
| "jdiv NaN _ = NaN"
| "jdiv _ NaN = NaN"
| "jdiv (Fin a) PInf = Fin 0"
| "jdiv (Fin a) NInf = Fin 0"
| "jdiv PInf (Fin b) = signed_inf (0 \<le> b)"
| "jdiv NInf (Fin b) = signed_inf (b < 0)"
| "jdiv PInf PInf = NaN"
| "jdiv PInf NInf = NaN"
| "jdiv NInf PInf = NaN"
| "jdiv NInf NInf = NaN"

text \<open>Comparisons: every comparison with \<open>NaN\<close> is false.\<close>

fun jlt :: "jsnum \<Rightarrow> jsnum \<Rightarrow> bool" where
  "jlt (Fin a) (Fin b) = (a < b)"
| "jlt NaN _ = False"
| "jlt _ NaN = False"
| "jlt _ NInf = False"
| "jlt PInf _ = False"
| "jlt NInf _ = True"
| "jlt _ PInf = True"

definition jgt :: "jsnum \<Rightarrow> jsnum \<Rightarrow> bool" where
  "jgt a b = jlt b a"

definition jle :: "jsnum \<Rightarrow> jsnum \<Rightarrow> bool" where
  "jle a b = (a \<noteq> NaN \<and> b \<noteq> NaN \<and> \<not> jlt b a)"

text \<open>\<open>Math.min\<close>, \<open>Math.max\<close> and \<open>Math.ceil\<close>.\<close>

definition jmin :: "jsnum \<Rightarrow> jsnum \<Rightarrow> jsnum" where
  "jmin a b = (if a = NaN \<or> b = NaN then NaN else if jlt b a then b else a)"

definition jmax :: "jsnum \<Rightarrow> jsnum \<Rightarrow> jsnum" where
  "jmax a b = (if a = NaN \<or> b = NaN then NaN else if jlt a b then b else a)"

fun jceil :: "jsnum \<Rightarrow> jsnum" where
  "jceil (Fin a) = Fin (of_int \<lceil>a\<rceil>)"
| "jceil x = x"

text \<open>A number is truthy unless it is zero or \<open>NaN\<close>.\<close>

definition jtruthy :: "jsnum \<Rightarrow> bool" where
  "jtruthy a = (a \<noteq> Fin 0 \<and> a \<noteq> NaN)"

section \<open>Regular expressions\<close>

text \<open>
  The fragment of JavaScript regular expressions the program uses: literal text, one
  character of a class, a greedy \<open>+\<close> or \<open>*\<close> over a class, a capture group, sequence,
  alternation and the end-of-input anchor. A string is a list of code units, here HOL's
  8-bit characters; the patterns of the program are ASCII.
\<close>

datatype rx =
    Lit string
  | Cls "char \<Rightarrow> bool"
  | Plus "char \<Rightarrow> bool"
  | Star "char \<Rightarrow> bool"
  | Grp rx
  | Seq rx rx
  | Alt rx rx
  | Eol

text \<open>The character classes \<open>\d\<close> and \<open>\S\<close>, and a negated set \<open>[^...]\<close>.\<close>

definition digit :: "char \<Rightarrow> bool" where
  "digit c = (c \<in> set ''0123456789'')"

text \<open>The white space of \<open>\s\<close> among the code units below 256.\<close>

definition whitespace :: "char \<Rightarrow> bool" where
  "whitespace c =
     (c \<in> set [CHR 0x09, CHR 0x0A, CHR 0x0B, CHR 0x0C, CHR 0x0D, CHR '' '', CHR 0xA0])"

definition nonspace :: "char \<Rightarrow> bool" where
  "nonspace c = (\<not> whitespace c)"

definition none_of :: "string \<Rightarrow> char \<Rightarrow> bool" where
  "none_of cs c = (c \<notin> set cs)"

text \<open>
  Under the \<open>i\<close> flag two code units match when their canonical (upper-case) forms are
  equal. Every pattern of the program is ASCII, and a code unit outside ASCII never
  canonicalises to an ASCII one, so folding the ASCII letters is exact.
\<close>

definition canonicalize :: "char \<Rightarrow> char" where
  "canonicalize c =
     (case map_of (zip ''abcdefghijklmnopqrstuvwxyz'' ''ABCDEFGHIJKLMNOPQRSTUVWXYZ'') c of
        Some u \<Rightarrow> u
      | None \<Rightarrow> c)"

definition ch_eq :: "bool \<Rightarrow> char \<Rightarrow> char \<Rightarrow> bool" where
  "ch_eq ignoreCase a b = (if ignoreCase then canonicalize a = canonicalize b else a = b)"

text \<open>
  Literal text at the head of the input: the text of the input it matches and the input
  after it, if it is there.
\<close>

fun lit_rest :: "bool \<Rightarrow> string \<Rightarrow> string \<Rightarrow> (string \<times> string) option" where
  "lit_rest i [] s = Some ([], s)"
| "lit_rest i (c # w) [] = None"
| "lit_rest i (c # w) (d # s) =
     (if ch_eq i c d then map_option (\<lambda>(taken, rest). (d # taken, rest)) (lit_rest i w s)
      else None)"

text \<open>
  The ways a greedy \<open>+\<close> over a class can match: each is the text taken and the input
  left, the longest run first.
\<close>

fun runs :: "(char \<Rightarrow> bool) \<Rightarrow> string \<Rightarrow> (string \<times> string) list" where
  "runs p [] = []"
| "runs p (c # cs) =
     (if p c then map (\<lambda>(taken, rest). (c # taken, rest)) (runs p cs) @ [([c], cs)] else [])"

text \<open>
  A backtracking matcher: from the input and the captures made so far, every way the
  pattern can match at the head of the input, in the order a backtracking engine tries
  them. Each result is the text matched, the input left and the captures, a group's
  capture appended when the group closes.
\<close>

type_synonym rx_state = "string \<times> string \<times> string list"

fun rx_run :: "bool \<Rightarrow> rx \<Rightarrow> string \<Rightarrow> string list \<Rightarrow> rx_state list" where
  "rx_run i (Lit w) s caps =
     (case lit_rest i w s of None \<Rightarrow> [] | Some (taken, rest) \<Rightarrow> [(taken, rest, caps)])"
| "rx_run i (Cls p) s caps =
     (case s of [] \<Rightarrow> [] | c # cs \<Rightarrow> if p c then [([c], cs, caps)] else [])"
| "rx_run i (Plus p) s caps = map (\<lambda>(taken, rest). (taken, rest, caps)) (runs p s)"
| "rx_run i (Star p) s caps =
     map (\<lambda>(taken, rest). (taken, rest, caps)) (runs p s @ [([], s)])"
| "rx_run i (Grp r) s caps =
     map (\<lambda>(taken, rest, caps'). (taken, rest, caps' @ [taken])) (rx_run i r s caps)"
| "rx_run i (Seq a b) s caps =
     concat (map (\<lambda>(taken, rest, caps').
                    map (\<lambda>(taken', rest', caps''). (taken @ taken', rest', caps''))
                        (rx_run i b rest caps'))
                 (rx_run i a s caps))"
| "rx_run i (Alt a b) s caps = rx_run i a s caps @ rx_run i b s caps"
| "rx_run i Eol s caps = (if s = [] then [([], s, caps)] else [])"

text \<open>
  \<open>RegExp.prototype.test\<close> without the \<open>g\<close> flag: is there a match at some offset,
  the end of the input included.
\<close>

fun rx_test :: "bool \<Rightarrow> rx \<Rightarrow> string \<Rightarrow> bool" where
  "rx_test i r [] = (rx_run i r [] [] \<noteq> [])"
| "rx_test i r (c # cs) = (rx_run i r (c # cs) [] \<noteq> [] \<or> rx_test i r cs)"

text \<open>
  \<open>String.prototype.match\<close> for a pattern that starts with \<open>^\<close>: the first match at
  offset 0, as the list of its captures; \<open>None\<close> is JavaScript's \<open>null\<close>.
\<close>

definition rx_match_start :: "bool \<Rightarrow> rx \<Rightarrow> string \<Rightarrow> string list option" where
  "rx_match_start i r s =
     (case rx_run i r s [] of [] \<Rightarrow> None | (_, _, caps) # _ \<Rightarrow> Some caps)"

fun seqs :: "rx list \<Rightarrow> rx" where
  "seqs [] = Lit []"
| "seqs [r] = r"
| "seqs (r # rs) = Seq r (seqs rs)"

fun alts :: "rx list \<Rightarrow> rx" where
  "alts [] = Cls (\<lambda>_. False)"
| "alts [r] = r"
| "alts (r # rs) = Alt r (alts rs)"

section \<open>Bot detector (lib/bot-detector.ts)\<close>

text \<open>
  A signature. Its fields that a detection result has too carry the prefix \<open>sig_\<close> here.
\<close>

record BotSignature =
  pattern :: rx
  sig_category :: string
  sig_severity :: string
  sig_description :: string
  sig_recommendation :: string
  rateLimit :: "nat option"

text \<open>
  \<open>string | null\<close> and optional fields are options: \<open>None\<close> is \<open>null\<close> or an absent
  field.
\<close>

record BotDetectionResult =
  isBot :: bool
  botName :: "string option"
  category :: "string option"
  severity :: "string option"
  description :: "string option"
  recommendation :: "string option"
  confidence :: jsnum

text \<open>
  The registry is a \<open>Map\<close>, iterated in insertion order: an association list in the
  order of the source. Every pattern carries the \<open>i\<close> flag.
\<close>

definition signatures :: "(string \<times> BotSignature) list" where
  "signatures = [
    (''GPTBot'', \<lparr>pattern = seqs [Lit ''GPTBot/'', Plus digit, Lit ''.'', Plus digit],
       sig_category = ''ai_training'', sig_severity = ''high'',
       sig_description = ''OpenAI GPT training crawler'',
       sig_recommendation = ''rate_limit'', rateLimit = Some 10\<rparr>),
    (''ChatGPT-User'', \<lparr>pattern = Lit ''ChatGPT-User'',
       sig_category = ''ai_training'', sig_severity = ''high'',
       sig_description = ''ChatGPT web browsing'',
       sig_recommendation = ''rate_limit'', rateLimit = Some 20\<rparr>),
    (''Claude-Web'', \<lparr>pattern = Lit ''Claude-Web'',
       sig_category = ''ai_training'', sig_severity = ''high'',
       sig_description = ''Anthropic Claude crawler'',
       sig_recommendation = ''rate_limit'', rateLimit = Some 10\<rparr>),
    (''anthropic-ai'', \<lparr>pattern = Lit ''anthropic-ai'',
       sig_category = ''ai_training'', sig_severity = ''high'',
       sig_description = ''Anthropic AI bot'',
       sig_recommendation = ''rate_limit'', rateLimit = None\<rparr>),
    (''Cohere-ai'', \<lparr>pattern = Lit ''cohere-ai'',
       sig_category = ''ai_training'', sig_severity = ''medium'',
       sig_description = ''Cohere AI training bot'',
       sig_recommendation = ''rate_limit'', rateLimit = None\<rparr>),
    (''PerplexityBot'', \<lparr>pattern = Lit ''PerplexityBot'',
       sig_category = ''ai_search'', sig_severity = ''medium'',
       sig_description = ''Perplexity AI search engine'',
       sig_recommendation = ''rate_limit'', rateLimit = Some 30\<rparr>),
    (''YouBot'', \<lparr>pattern = Lit ''YouBot'',
       sig_category = ''ai_search'', sig_severity = ''medium'',
       sig_description = ''You.com search bot'',
       sig_recommendation = ''rate_limit'', rateLimit = None\<rparr>),
    (''Googlebot'', \<lparr>pattern = Lit ''Googlebot'',
       sig_category = ''search_engine'', sig_severity = ''low'',
       sig_description = ''Google search crawler'',
       sig_recommendation = ''allow'', rateLimit = None\<rparr>),
    (''bingbot'', \<lparr>pattern = Lit ''bingbot'',
       sig_category = ''search_engine'', sig_severity = ''low'',
       sig_description = ''Bing search crawler'',
       sig_recommendation = ''allow'', rateLimit = None\<rparr>),
    (''Baiduspider'', \<lparr>pattern = Lit ''Baiduspider'',
       sig_category = ''search_engine'', sig_severity = ''low'',
       sig_description = ''Baidu search crawler'',
       sig_recommendation = ''rate_limit'', rateLimit = Some 20\<rparr>),
    (''YandexBot'', \<lparr>pattern = Lit ''YandexBot'',
       sig_category = ''search_engine'', sig_severity = ''low'',
       sig_description = ''Yandex search crawler'',
       sig_recommendation = ''rate_limit'', rateLimit = None\<rparr>),
    (''DuckDuckBot'', \<lparr>pattern = Lit ''DuckDuckBot'',
       sig_category = ''search_engine'', sig_severity = ''low'',
       sig_description = ''DuckDuckGo search crawler'',
       sig_recommendation = ''allow'', rateLimit = None\<rparr>),
    (''CCBot'', \<lparr>pattern = Lit ''CCBot'',
       sig_category = ''ai_scraper'', sig_severity = ''critical'',
       sig_description = ''Common Crawl bot - Very aggressive'',
       sig_recommendation = ''block'', rateLimit = None\<rparr>),
    (''Bytespider'', \<lparr>pattern = Lit ''Bytespider'',
       sig_category = ''ai_scraper'', sig_severity = ''critical'',
       sig_description = ''ByteDance aggressive crawler'',
       sig_recommendation = ''block'', rateLimit = None\<rparr>),
    (''PetalBot'', \<lparr>pattern = Lit ''PetalBot'',
       sig_category = ''scraper'', sig_severity = ''high'',
       sig_description = ''Huawei Petal search crawler'',
       sig_recommendation = ''block'', rateLimit = None\<rparr>),
    (''MJ12bot'', \<lparr>pattern = Lit ''MJ12bot'',
       sig_category = ''scraper'', sig_severity = ''critical'',
       sig_description = ''Majestic SEO crawler - Known for aggressive crawling'',
       sig_recommendation = ''block'', rateLimit = None\<rparr>),
    (''DataForSeoBot'', \<lparr>pattern = Lit ''DataForSeoBot'',
       sig_category = ''ai_scraper'', sig_severity = ''high'',
       sig_description = ''SEO data scraper'',
       sig_recommendation = ''block'', rateLimit = None\<rparr>),
    (''SemrushBot'', \<lparr>pattern = Lit ''SemrushBot'',
       sig_category = ''seo_tool'', sig_severity = ''medium'',
       sig_description = ''Semrush SEO analysis'',
       sig_recommendation = ''rate_limit'', rateLimit = Some 15\<rparr>),
    (''AhrefsBot'', \<lparr>pattern = Lit ''AhrefsBot'',
       sig_category = ''seo_tool'', sig_severity = ''medium'',
       sig_description = ''Ahrefs SEO crawler'',
       sig_recommendation = ''rate_limit'', rateLimit = Some 15\<rparr>),
    (''Screaming Frog'', \<lparr>pattern = Lit ''Screaming Frog SEO Spider'',
       sig_category = ''seo_tool'', sig_severity = ''medium'',
       sig_description = ''SEO audit tool'',
       sig_recommendation = ''rate_limit'', rateLimit = None\<rparr>),
    (''facebookexternalhit'', \<lparr>pattern = Lit ''facebookexternalhit'',
       sig_category = ''social_media'', sig_severity = ''low'',
       sig_description = ''Facebook link preview'',
       sig_recommendation = ''allow'', rateLimit = None\<rparr>),
    (''Twitterbot'', \<lparr>pattern = Lit ''Twitterbot'',
       sig_category = ''social_media'', sig_severity = ''low'',
       sig_description = ''Twitter/X link preview'',
       sig_recommendation = ''allow'', rateLimit = None\<rparr>),
    (''LinkedInBot'', \<lparr>pattern = Lit ''LinkedInBot'',
       sig_category = ''social_media'', sig_severity = ''low'',
       sig_description = ''LinkedIn link preview'',
       sig_recommendation = ''allow'', rateLimit = None\<rparr>),
    (''WhatsApp'', \<lparr>pattern = Lit ''WhatsApp'',
       sig_category = ''social_media'', sig_severity = ''low'',
       sig_description = ''WhatsApp link preview'',
       sig_recommendation = ''allow'', rateLimit = None\<rparr>),
    (''Slackbot'', \<lparr>pattern = Lit ''Slackbot'',
       sig_category = ''social_media'', sig_severity = ''low'',
       sig_description = ''Slack link preview'',
       sig_recommendation = ''allow'', rateLimit = None\<rparr>),
    (''UptimeRobot'', \<lparr>pattern = Lit ''UptimeRobot'',
       sig_category = ''monitoring'', sig_severity = ''low'',
       sig_description = ''Uptime monitoring service'',
       sig_recommendation = ''allow'', rateLimit = None\<rparr>),
    (''Pingdom'', \<lparr>pattern = Lit ''Pingdom'',
       sig_category = ''monitoring'', sig_severity = ''low'',
       sig_description = ''Website monitoring'',
       sig_recommendation = ''allow'', rateLimit = None\<rparr>)]"

definition genericPatterns :: "(rx \<times> jsnum) list" where
  "genericPatterns = [
    (alts [Lit ''bot'', Lit ''crawler'', Lit ''spider'', Lit ''scraper'', Lit ''crawl''], Fin 0.8),
    (alts [Lit ''python-requests'', Lit ''urllib'', Lit ''wget'', Lit ''curl'', Lit ''axios''],
     Fin 0.7),
    (alts [Lit ''headless'', Lit ''phantom'', Lit ''puppeteer'', Lit ''playwright''], Fin 0.9)]"

text \<open>The first loop of \<open>detect\<close>: \<open>Some\<close> is the early return.\<close>

fun scan_signatures :: "(string \<times> BotSignature) list \<Rightarrow> string \<Rightarrow> BotDetectionResult option" where
  "scan_signatures [] userAgent = None"
| "scan_signatures ((name, signature) # rest) userAgent =
     (if rx_test True (pattern signature) userAgent
      then Some \<lparr>isBot = True, botName = Some name,
                 category = Some (sig_category signature),
                 severity = Some (sig_severity signature),
                 description = Some (sig_description signature),
                 recommendation = Some (sig_recommendation signature),
                 confidence = Fin 0.95\<rparr>
      else scan_signatures rest userAgent)"

text \<open>The second loop, over the generic patterns.\<close>

fun scan_generic :: "(rx \<times> jsnum) list \<Rightarrow> string \<Rightarrow> BotDetectionResult option" where
  "scan_generic [] userAgent = None"
| "scan_generic ((pat, conf) # rest) userAgent =
     (if rx_test True pat userAgent
      then Some \<lparr>isBot = True, botName = Some ''Unknown Bot'',
                 category = Some ''scraper'', severity = Some ''medium'',
                 description = Some ''Unidentified bot or scraper'',
                 recommendation = Some ''rate_limit'', confidence = conf\<rparr>
      else scan_generic rest userAgent)"

definition not_a_bot :: BotDetectionResult where
  "not_a_bot = \<lparr>isBot = False, botName = None, category = None, severity = None,
                 description = None, recommendation = None, confidence = Fin 1.0\<rparr>"

text \<open>
  \<open>detect\<close>. The argument is an option: \<open>None\<close> is an absent user agent (\<open>null\<close> or
  \<open>undefined\<close>), which \<open>!userAgent\<close> treats as it does the empty string.
\<close>

definition detect :: "string option \<Rightarrow> BotDetectionResult" where
  "detect userAgent =
     (case userAgent of
        None \<Rightarrow> not_a_bot
      | Some ua \<Rightarrow>
          if ua = [] then not_a_bot
          else (case scan_signatures signatures ua of
                  Some r \<Rightarrow> r
                | None \<Rightarrow>
                    (case scan_generic genericPatterns ua of
                       Some r \<Rightarrow> r
                     | None \<Rightarrow> not_a_bot)))"

section \<open>Cost calculator (lib/cost-calculator.ts)\<close>

record TierPrice =
  upToGB :: jsnum
  costPerGB :: jsnum

text \<open>
  A provider's optional fields are options. Its \<open>name\<close> is \<open>provider_name\<close> here and
  its flat \<open>costPerGB\<close> is \<open>flatCostPerGB\<close>, \<open>costPerGB\<close> being the tier's.
\<close>

record HostingProvider =
  provider_name :: string
  flatCostPerGB :: "jsnum option"
  freeGBIncluded :: "jsnum option"
  tieredPricing :: "TierPrice list option"

record Bandwidth =
  gb :: jsnum
  cost :: jsnum

text \<open>The optional \<open>requests\<close> field of a cost breakdown is never set by the program.\<close>

record CostBreakdown =
  bandwidth :: Bandwidth
  total :: jsnum
  monthly :: jsnum
  yearly :: jsnum

definition genericProvider :: HostingProvider where
  "genericProvider =
     \<lparr>provider_name = ''Generic Provider'', flatCostPerGB = Some (Fin 0.10),
      freeGBIncluded = Some (Fin 0), tieredPricing = None\<rparr>"

definition providers :: "(string \<times> HostingProvider) list" where
  "providers = [
    (''aws'', \<lparr>provider_name = ''Amazon Web Services'', flatCostPerGB = None,
       freeGBIncluded = Some (Fin 1),
       tieredPricing = Some [
         \<lparr>upToGB = Fin 10, costPerGB = Fin 0.09\<rparr>,
         \<lparr>upToGB = Fin 40, costPerGB = Fin 0.085\<rparr>,
         \<lparr>upToGB = Fin 100, costPerGB = Fin 0.07\<rparr>,
         \<lparr>upToGB = Fin 150, costPerGB = Fin 0.05\<rparr>,
         \<lparr>upToGB = PInf, costPerGB = Fin 0.03\<rparr>]\<rparr>),
    (''cloudflare'', \<lparr>provider_name = ''Cloudflare'', flatCostPerGB = Some (Fin 0.045),
       freeGBIncluded = Some (Fin 0), tieredPricing = None\<rparr>),
    (''vercel'', \<lparr>provider_name = ''Vercel'', flatCostPerGB = Some (Fin 0.40),
       freeGBIncluded = Some (Fin 100), tieredPricing = None\<rparr>),
    (''netlify'', \<lparr>provider_name = ''Netlify'', flatCostPerGB = Some (Fin 0.55),
       freeGBIncluded = Some (Fin 100), tieredPricing = None\<rparr>),
    (''gcp'', \<lparr>provider_name = ''Google Cloud Platform'', flatCostPerGB = None,
       freeGBIncluded = None,
       tieredPricing = Some [
         \<lparr>upToGB = Fin 1, costPerGB = Fin 0\<rparr>,
         \<lparr>upToGB = Fin 10, costPerGB = Fin 0.12\<rparr>,
         \<lparr>upToGB = Fin 150, costPerGB = Fin 0.11\<rparr>,
         \<lparr>upToGB = PInf, costPerGB = Fin 0.08\<rparr>]\<rparr>),
    (''azure'', \<lparr>provider_name = ''Microsoft Azure'', flatCostPerGB = None,
       freeGBIncluded = None,
       tieredPricing = Some [
         \<lparr>upToGB = Fin 5, costPerGB = Fin 0.087\<rparr>,
         \<lparr>upToGB = Fin 10, costPerGB = Fin 0.083\<rparr>,
         \<lparr>upToGB = Fin 50, costPerGB = Fin 0.07\<rparr>,
         \<lparr>upToGB = Fin 150, costPerGB = Fin 0.05\<rparr>,
         \<lparr>upToGB = PInf, costPerGB = Fin 0.03\<rparr>]\<rparr>),
    (''digitalocean'', \<lparr>provider_name = ''DigitalOcean'', flatCostPerGB = Some (Fin 0.01),
       freeGBIncluded = Some (Fin 1000), tieredPricing = None\<rparr>),
    (''generic'', genericProvider)]"

text \<open>
  The multipliers are an object used as a dictionary, and so is the \<open>byCategory\<close>
  result below: both are maps from the key to the value. Keys that an object inherits
  from its prototype are outside the model.
\<close>

definition botCostMultipliers :: "(string \<times> jsnum) list" where
  "botCostMultipliers = [
    (''ai_training'', Fin 1.5),
    (''ai_scraper'', Fin 1.8),
    (''ai_search'', Fin 1.2),
    (''search_engine'', Fin 0.5),
    (''social_media'', Fin 0.3),
    (''seo_tool'', Fin 1.0),
    (''scraper'', Fin 1.5),
    (''unknown'', Fin 1.0)]"

text \<open>
  The loop of \<open>calculateTieredCost\<close> from a given tier on, with the three variables it
  updates; the \<open>break\<close> is the return of \<open>totalCost\<close>.
\<close>

fun tiered_loop :: "TierPrice list \<Rightarrow> jsnum \<Rightarrow> jsnum \<Rightarrow> jsnum \<Rightarrow> jsnum" where
  "tiered_loop [] remainingGB totalCost previousTierLimit = totalCost"
| "tiered_loop (tier # tiers) remainingGB totalCost previousTierLimit =
     (let tierGB = jmin remainingGB (jsub (upToGB tier) previousTierLimit);
          (remainingGB', totalCost', previousTierLimit') =
            (if jgt tierGB (Fin 0)
             then (jsub remainingGB tierGB,
                   jadd totalCost (jmul tierGB (costPerGB tier)),
                   upToGB tier)
             else (remainingGB, totalCost, previousTierLimit))
      in if jle remainingGB' (Fin 0) then totalCost'
         else tiered_loop tiers remainingGB' totalCost' previousTierLimit')"

definition calculateTieredCost :: "jsnum \<Rightarrow> TierPrice list \<Rightarrow> jsnum" where
  "calculateTieredCost gbAmount tiers = tiered_loop tiers gbAmount (Fin 0) (Fin 0)"

text \<open>
  A well-formed tier table: the bounds increase strictly, the last bound is infinite and
  every rate is a finite number that is not negative.
\<close>

definition rate_ok :: "TierPrice \<Rightarrow> bool" where
  "rate_ok t = (case costPerGB t of Fin c \<Rightarrow> 0 \<le> c | _ \<Rightarrow> False)"

definition well_formed_tiers :: "TierPrice list \<Rightarrow> bool" where
  "well_formed_tiers tiers =
     (tiers \<noteq> [] \<and> sorted_wrt (\<lambda>a b. jlt (upToGB a) (upToGB b)) tiers \<and>
      upToGB (last tiers) = PInf \<and> list_all rate_ok tiers)"

text \<open>\<open>this.providers.get(provider) || this.providers.get('generic')!\<close>\<close>

definition get_provider :: "string \<Rightarrow> HostingProvider" where
  "get_provider provider =
     (case map_of providers provider of Some p \<Rightarrow> p | None \<Rightarrow> genericProvider)"

text \<open>\<open>x || d\<close> for an optional number \<open>x\<close>.\<close>

definition or_default :: "jsnum option \<Rightarrow> jsnum \<Rightarrow> jsnum" where
  "or_default x d = (case x of Some v \<Rightarrow> if jtruthy v then v else d | None \<Rightarrow> d)"

definition calculateBandwidthCost :: "jsnum \<Rightarrow> string \<Rightarrow> CostBreakdown" where
  "calculateBandwidthCost bytesTransferred provider =
     (let gbAmount = jdiv bytesTransferred (Fin (1024 ^ 3));
          providerConfig = get_provider provider;
          billableGB =
            (case freeGBIncluded providerConfig of
               Some free \<Rightarrow> if jtruthy free then jmax (Fin 0) (jsub gbAmount free) else gbAmount
             | None \<Rightarrow> gbAmount);
          c = (case tieredPricing providerConfig of
                 Some tiers \<Rightarrow> calculateTieredCost billableGB tiers
               | None \<Rightarrow> jmul billableGB (or_default (flatCostPerGB providerConfig) (Fin 0)))
      in \<lparr>bandwidth = \<lparr>gb = gbAmount, cost = c\<rparr>,
          total = c, monthly = jmul c (Fin 30), yearly = jmul c (Fin 365)\<rparr>)"

text \<open>
  A bot-traffic record. \<open>calculateSavingsByCategory\<close> takes records without the bot's
  name and does not read it.
\<close>

record BotTraffic =
  traffic_botName :: string
  traffic_category :: string
  bytesTransferred :: jsnum
  requestCount :: jsnum

record Savings =
  savings_total :: jsnum
  savings_monthly :: jsnum
  savings_yearly :: jsnum
  byCategory :: "string \<rightharpoonup> CostBreakdown"

text \<open>
  \<open>calculateSavingsByCategory\<close>: the cost the loop body computes for one record \<open>b\<close>
  (the source's \<open>bot\<close>), and the loop over \<open>breakdown\<close> and \<open>totalSavings\<close>.
\<close>

definition record_cost :: "string \<Rightarrow> BotTraffic \<Rightarrow> CostBreakdown" where
  "record_cost provider b =
     (let multiplier = or_default (map_of botCostMultipliers (traffic_category b)) (Fin 1.0);
          adjustedBytes = jmul (bytesTransferred b) multiplier
      in calculateBandwidthCost adjustedBytes provider)"

fun savings_loop ::
  "string \<Rightarrow> BotTraffic list \<Rightarrow> (string \<rightharpoonup> CostBreakdown) \<times> jsnum
     \<Rightarrow> (string \<rightharpoonup> CostBreakdown) \<times> jsnum" where
  "savings_loop provider [] (breakdown, totalSavings) = (breakdown, totalSavings)"
| "savings_loop provider (b # rest) (breakdown, totalSavings) =
     (let c = record_cost provider b
      in savings_loop provider rest
           (breakdown(traffic_category b \<mapsto> c), jadd totalSavings (total c)))"

definition calculateSavingsByCategory :: "BotTraffic list \<Rightarrow> string \<Rightarrow> Savings" where
  "calculateSavingsByCategory botTraffic provider =
     (let (breakdown, totalSavings) = savings_loop provider botTraffic (Map.empty, Fin 0)
      in \<lparr>savings_total = totalSavings,
          savings_monthly = jmul totalSavings (Fin 30),
          savings_yearly = jmul totalSavings (Fin 365),
          byCategory = breakdown\<rparr>)"

record Recommendation =
  action :: string
  target :: string
  reason :: string
  savingsPerMonth :: jsnum
  rec_confidence :: jsnum

text \<open>
  The body of the loop of \<open>generateRecommendations\<close>: the recommendation it pushes for
  one record \<open>b\<close> (the source's \<open>bot\<close>), if any. \<open>toFixed2\<close> stands for the platform's \<open>Number.prototype.toFixed(2)\<close>.
\<close>

definition recommend :: "(jsnum \<Rightarrow> string) \<Rightarrow> string \<Rightarrow> BotTraffic \<Rightarrow> Recommendation option" where
  "recommend toFixed2 provider b =
     (let monthlyCost = monthly (calculateBandwidthCost (bytesTransferred b) provider)
      in if traffic_category b = ''ai_scraper'' \<and> jgt monthlyCost (Fin 10) then
           Some \<lparr>action = ''block'', target = traffic_botName b,
                  reason = ''Aggressive scraper costing $'' @ toFixed2 monthlyCost @
                           ''/month with minimal SEO benefit'',
                  savingsPerMonth = monthlyCost, rec_confidence = Fin 0.95\<rparr>
         else if traffic_category b = ''ai_training'' \<and> jgt monthlyCost (Fin 50) then
           Some \<lparr>action = ''rate_limit'', target = traffic_botName b,
                  reason = ''AI training bot consuming excessive bandwidth. Rate limiting can reduce costs by 70%'',
                  savingsPerMonth = jmul monthlyCost (Fin 0.7), rec_confidence = Fin 0.85\<rparr>
         else if traffic_category b = ''search_engine'' then
           Some \<lparr>action = ''allow'', target = traffic_botName b,
                  reason = ''Essential for SEO and organic traffic'',
                  savingsPerMonth = Fin 0, rec_confidence = Fin 1.0\<rparr>
         else if traffic_category b = ''seo_tool'' \<and> jgt monthlyCost (Fin 20) then
           Some \<lparr>action = ''rate_limit'', target = traffic_botName b,
                  reason = ''SEO tool with high bandwidth usage. Consider rate limiting to reduce costs'',
                  savingsPerMonth = jmul monthlyCost (Fin 0.5), rec_confidence = Fin 0.75\<rparr>
         else None)"

fun recommend_loop ::
  "(jsnum \<Rightarrow> string) \<Rightarrow> string \<Rightarrow> BotTraffic list \<Rightarrow> Recommendation list \<Rightarrow> Recommendation list" where
  "recommend_loop toFixed2 provider [] recommendations = recommendations"
| "recommend_loop toFixed2 provider (b # rest) recommendations =
     recommend_loop toFixed2 provider rest
       (case recommend toFixed2 provider b of
          Some r \<Rightarrow> recommendations @ [r]
        | None \<Rightarrow> recommendations)"

text \<open>
  \<open>Array.prototype.sort\<close> with a comparator. The sort is stable, and with a consistent
  comparator every stable sort returns this list: an insertion sort that puts an element
  after the ones it does not precede. Where the comparator is inconsistent (a difference
  that is \<open>NaN\<close>) the order is the engine's choice, and the model fixes one.
\<close>

fun insert_sorted :: "('a \<Rightarrow> 'a \<Rightarrow> jsnum) \<Rightarrow> 'a \<Rightarrow> 'a list \<Rightarrow> 'a list" where
  "insert_sorted cmp x [] = [x]"
| "insert_sorted cmp x (y # ys) =
     (if jgt (cmp x y) (Fin 0) then y # insert_sorted cmp x ys else x # y # ys)"

definition js_sort :: "('a \<Rightarrow> 'a \<Rightarrow> jsnum) \<Rightarrow> 'a list \<Rightarrow> 'a list" where
  "js_sort cmp xs = foldr (insert_sorted cmp) xs []"

definition generateRecommendations ::
  "(jsnum \<Rightarrow> string) \<Rightarrow> BotTraffic list \<Rightarrow> string \<Rightarrow> Recommendation list" where
  "generateRecommendations toFixed2 botTraffic provider =
     js_sort (\<lambda>a b. jsub (savingsPerMonth b) (savingsPerMonth a))
       (recommend_loop toFixed2 provider botTraffic [])"

section \<open>Double-precision arithmetic\<close>

text \<open>
  Which number \<open>calculateROI\<close> and \<open>parseInt\<close> return depends on how the platform
  rounds: they are modelled in IEEE 754 double precision, rounding to the nearest double
  with ties to the even one. A double is a sign with a magnitude (\<open>True\<close> is the minus
  sign, so \<open>DNum True 0\<close> is \<open>-0\<close>), an infinity with its sign, or \<open>NaN\<close>.
\<close>

datatype dbl = DNum bool real | DInf bool | DNaN

abbreviation pos :: "real \<Rightarrow> dbl" where
  "pos a \<equiv> DNum False a"

text \<open>Two to an integer power.\<close>

definition pow2 :: "int \<Rightarrow> real" where
  "pow2 e = (if 0 \<le> e then 2 ^ nat e else 1 / 2 ^ nat (- e))"

text \<open>
  The exponent of a magnitude \<open>m\<close>: the \<open>e\<close> from -1022 to 1023 with
  \<open>2\<^sup>e \<le> m < 2\<^sup>e\<^sup>+\<^sup>1\<close>, found by bisection (eleven steps cover the 2046 exponents);
  -1022 for a smaller magnitude, the subnormal range, and 1023 for a greater one.
\<close>

fun exponent_search :: "nat \<Rightarrow> int \<Rightarrow> int \<Rightarrow> real \<Rightarrow> int" where
  "exponent_search 0 lo hi m = lo"
| "exponent_search (Suc n) lo hi m =
     (if hi \<le> lo then lo
      else let mid = (lo + hi + 1) div 2
           in if pow2 mid \<le> m then exponent_search n mid hi m
              else exponent_search n lo (mid - 1) m)"

definition binade :: "real \<Rightarrow> int" where
  "binade m = exponent_search 11 (- 1022) 1023 m"

text \<open>The nearest integer, the even one of two that are equally near.\<close>

definition round_half_even :: "real \<Rightarrow> int" where
  "round_half_even x =
     (let f = \<lfloor>x\<rfloor>; d = x - of_int f
      in if d < 1 / 2 then f else if 1 / 2 < d then f + 1 else if even f then f else f + 1)"

text \<open>
  The double nearest to a real number given by its sign and its magnitude: the doubles
  around a magnitude of exponent \<open>e\<close> are the multiples of \<open>2\<^sup>e\<^sup>-\<^sup>5\<^sup>2\<close>, and a result of
  \<open>2\<^sup>1\<^sup>0\<^sup>2\<^sup>4\<close> or more is an infinity.
\<close>

definition round_dbl :: "bool \<Rightarrow> real \<Rightarrow> dbl" where
  "round_dbl negative m =
     (let ulp = pow2 (binade m - 52);
          y = of_int (round_half_even (m / ulp)) * ulp
      in if pow2 1024 \<le> y then DInf negative else DNum negative y)"

text \<open>The double of a real number, as a decimal literal of the source denotes it.\<close>

definition lit :: "real \<Rightarrow> dbl" where
  "lit x = round_dbl (x < 0) \<bar>x\<bar>"

text \<open>The numbers of the tables above are such literals.\<close>

fun of_jsnum :: "jsnum \<Rightarrow> dbl" where
  "of_jsnum (Fin x) = lit x"
| "of_jsnum PInf = DInf False"
| "of_jsnum NInf = DInf True"
| "of_jsnum NaN = DNaN"

text \<open>The real value of a finite double.\<close>

definition signed :: "bool \<Rightarrow> real \<Rightarrow> real" where
  "signed negative a = (if negative then - a else a)"

text \<open>A double as a number of the cost model above, which has one zero.\<close>

fun to_jsnum :: "dbl \<Rightarrow> jsnum" where
  "to_jsnum (DNum s a) = Fin (signed s a)"
| "to_jsnum (DInf s) = (if s then NInf else PInf)"
| "to_jsnum DNaN = NaN"

fun dneg :: "dbl \<Rightarrow> dbl" where
  "dneg (DNum s a) = DNum (\<not> s) a"
| "dneg (DInf s) = DInf (\<not> s)"
| "dneg DNaN = DNaN"

text \<open>
  Addition. An exact sum of zero is \<open>+0\<close> unless both operands are negative (then both
  are \<open>-0\<close>); opposite infinities give \<open>NaN\<close>.
\<close>

fun dadd :: "dbl \<Rightarrow> dbl \<Rightarrow> dbl" where
  "dadd (DNum s a) (DNum t b) =
     (let v = signed s a + signed t b
      in if v = 0 then DNum (s \<and> t) 0 else round_dbl (v < 0) \<bar>v\<bar>)"
| "dadd DNaN _ = DNaN"
| "dadd _ DNaN = DNaN"
| "dadd (DInf s) (DInf t) = (if s = t then DInf s else DNaN)"
| "dadd (DInf s) (DNum t b) = DInf s"
| "dadd (DNum s a) (DInf t) = DInf t"

definition dsub :: "dbl \<Rightarrow> dbl \<Rightarrow> dbl" where
  "dsub x y = dadd x (dneg y)"

text \<open>Multiplication and division: the sign of the result is the product of the signs.\<close>

fun dmul :: "dbl \<Rightarrow> dbl \<Rightarrow> dbl" where
  "dmul (DNum s a) (DNum t b) = round_dbl (s \<noteq> t) (a * b)"
| "dmul DNaN _ = DNaN"
| "dmul _ DNaN = DNaN"
| "dmul (DInf s) (DInf t) = DInf (s \<noteq> t)"
| "dmul (DInf s) (DNum t b) = (if b = 0 then DNaN else DInf (s \<noteq> t))"
| "dmul (DNum s a) (DInf t) = (if a = 0 then DNaN else DInf (s \<noteq> t))"

fun ddiv :: "dbl \<Rightarrow> dbl \<Rightarrow> dbl" where
  "ddiv (DNum s a) (DNum t b) =
     (if b = 0 then (if a = 0 then DNaN else DInf (s \<noteq> t))
      else round_dbl (s \<noteq> t) (a / b))"
| "ddiv DNaN _ = DNaN"
| "ddiv _ DNaN = DNaN"
| "ddiv (DInf s) (DInf t) = DNaN"
| "ddiv (DInf s) (DNum t b) = DInf (s \<noteq> t)"
| "ddiv (DNum s a) (DInf t) = DNum (s \<noteq> t) 0"

text \<open>Comparisons: the two zeros are equal, and every comparison with \<open>NaN\<close> is false.\<close>

fun dlt :: "dbl \<Rightarrow> dbl \<Rightarrow> bool" where
  "dlt (DNum s a) (DNum t b) = (signed s a < signed t b)"
| "dlt DNaN _ = False"
| "dlt _ DNaN = False"
| "dlt (DInf s) (DInf t) = (s \<and> \<not> t)"
| "dlt (DInf s) (DNum t b) = s"
| "dlt (DNum s a) (DInf t) = (\<not> t)"

definition dgt :: "dbl \<Rightarrow> dbl \<Rightarrow> bool" where
  "dgt x y = dlt y x"

definition dle :: "dbl \<Rightarrow> dbl \<Rightarrow> bool" where
  "dle x y = (x \<noteq> DNaN \<and> y \<noteq> DNaN \<and> \<not> dlt y x)"

text \<open>
  \<open>Math.min\<close> and \<open>Math.max\<close>: \<open>NaN\<close> if an argument is, and \<open>-0\<close> counts as less than
  \<open>+0\<close>.
\<close>

definition is_zero :: "dbl \<Rightarrow> bool" where
  "is_zero x = (case x of DNum s a \<Rightarrow> a = 0 | _ \<Rightarrow> False)"

definition is_negative :: "dbl \<Rightarrow> bool" where
  "is_negative x = (case x of DNum s a \<Rightarrow> s | DInf s \<Rightarrow> s | DNaN \<Rightarrow> False)"

definition dmin :: "dbl \<Rightarrow> dbl \<Rightarrow> dbl" where
  "dmin x y =
     (if x = DNaN \<or> y = DNaN then DNaN
      else if dlt y x then y
      else if dlt x y then x
      else if is_zero x \<and> is_zero y then DNum (is_negative x \<or> is_negative y) 0
      else x)"

definition dmax :: "dbl \<Rightarrow> dbl \<Rightarrow> dbl" where
  "dmax x y =
     (if x = DNaN \<or> y = DNaN then DNaN
      else if dlt x y then y
      else if dlt y x then x
      else if is_zero x \<and> is_zero y then DNum (is_negative x \<and> is_negative y) 0
      else x)"

text \<open>
  \<open>Math.ceil\<close>: the ceiling of a double is a double; a ceiling of zero keeps the sign of
  the argument.
\<close>

fun dceil :: "dbl \<Rightarrow> dbl" where
  "dceil (DNum s a) =
     (let c = \<lceil>signed s a\<rceil> in if c = 0 then DNum s 0 else DNum (c < 0) (of_int \<bar>c\<bar>))"
| "dceil x = x"

text \<open>A number is truthy unless it is a zero or \<open>NaN\<close>.\<close>

definition dtruthy :: "dbl \<Rightarrow> bool" where
  "dtruthy x = (x \<noteq> DNaN \<and> \<not> is_zero x)"

text \<open>\<open>x || d\<close> for an optional number \<open>x\<close> of a table.\<close>

definition or_default_dbl :: "jsnum option \<Rightarrow> dbl \<Rightarrow> dbl" where
  "or_default_dbl x d =
     (case x of Some v \<Rightarrow> if dtruthy (of_jsnum v) then of_jsnum v else d | None \<Rightarrow> d)"

section \<open>calculateROI (lib/cost-calculator.ts), in double precision\<close>

text \<open>
  The functions \<open>calculateROI\<close> calls, with the arithmetic of doubles: the loop of
  \<open>calculateTieredCost\<close>, \<open>calculateTieredCost\<close> and \<open>calculateBandwidthCost\<close>, each as
  above but for the operations, and named with the suffix \<open>_dbl\<close>, as are the fields of
  the records they return. The numbers of the provider tables are the doubles of their
  literals (\<open>of_jsnum\<close>).
\<close>

fun tiered_loop_dbl :: "TierPrice list \<Rightarrow> dbl \<Rightarrow> dbl \<Rightarrow> dbl \<Rightarrow> dbl" where
  "tiered_loop_dbl [] remainingGB totalCost previousTierLimit = totalCost"
| "tiered_loop_dbl (tier # tiers) remainingGB totalCost previousTierLimit =
     (let tierGB = dmin remainingGB (dsub (of_jsnum (upToGB tier)) previousTierLimit);
          (remainingGB', totalCost', previousTierLimit') =
            (if dgt tierGB (pos 0)
             then (dsub remainingGB tierGB,
                   dadd totalCost (dmul tierGB (of_jsnum (costPerGB tier))),
                   of_jsnum (upToGB tier))
             else (remainingGB, totalCost, previousTierLimit))
      in if dle remainingGB' (pos 0) then totalCost'
         else tiered_loop_dbl tiers remainingGB' totalCost' previousTierLimit')"

definition calculateTieredCost_dbl :: "dbl \<Rightarrow> TierPrice list \<Rightarrow> dbl" where
  "calculateTieredCost_dbl gbAmount tiers = tiered_loop_dbl tiers gbAmount (pos 0) (pos 0)"

record Bandwidth_dbl =
  gb_dbl :: dbl
  cost_dbl :: dbl

record CostBreakdown_dbl =
  bandwidth_dbl :: Bandwidth_dbl
  total_dbl :: dbl
  monthly_dbl :: dbl
  yearly_dbl :: dbl

definition calculateBandwidthCost_dbl :: "dbl \<Rightarrow> string \<Rightarrow> CostBreakdown_dbl" where
  "calculateBandwidthCost_dbl bytesTransferred' provider =
     (let gbAmount = ddiv bytesTransferred' (pos (1024 ^ 3));
          providerConfig = get_provider provider;
          billableGB =
            (case freeGBIncluded providerConfig of
               Some free \<Rightarrow>
                 if dtruthy (of_jsnum free) then dmax (pos 0) (dsub gbAmount (of_jsnum free))
                 else gbAmount
             | None \<Rightarrow> gbAmount);
          c = (case tieredPricing providerConfig of
                 Some tiers \<Rightarrow> calculateTieredCost_dbl billableGB tiers
               | None \<Rightarrow> dmul billableGB (or_default_dbl (flatCostPerGB providerConfig) (pos 0)))
      in \<lparr>bandwidth_dbl = \<lparr>gb_dbl = gbAmount, cost_dbl = c\<rparr>,
          total_dbl = c, monthly_dbl = dmul c (pos 30), yearly_dbl = dmul c (pos 365)\<rparr>)"

record ROI =
  breakEvenDays :: dbl
  monthlySavings :: dbl
  yearlySavings :: dbl
  roi :: dbl

text \<open>
  \<open>calculateROI\<close>. Its last parameter has the default 0: \<open>None\<close> is a call without it.
\<close>

definition calculateROI :: "dbl \<Rightarrow> string \<Rightarrow> dbl option \<Rightarrow> ROI" where
  "calculateROI currentBotTraffic provider implementationCost' =
     (let implementationCost = (case implementationCost' of Some c \<Rightarrow> c | None \<Rightarrow> pos 0);
          dailyCost = calculateBandwidthCost_dbl currentBotTraffic provider;
          monthlySavings' = monthly_dbl dailyCost;
          yearlySavings' = yearly_dbl dailyCost;
          breakEvenDays' =
            (if dgt implementationCost (pos 0)
             then dceil (ddiv implementationCost (total_dbl dailyCost))
             else pos 0);
          roi' =
            (if dgt implementationCost (pos 0)
             then dmul (ddiv (dsub yearlySavings' implementationCost) implementationCost) (pos 100)
             else DInf False)
      in \<lparr>breakEvenDays = breakEvenDays', monthlySavings = monthlySavings',
          yearlySavings = yearlySavings', roi = roi'\<rparr>)"

section \<open>Robots policy (lib/bot-detector.ts, generateRobotsTxt)\<close>

text \<open>
  \<open>generateRobotsTxt\<close> reads the clock: \<open>new Date().toISOString()\<close>. The model takes
  the text of that reading as the argument \<open>now\<close>. The rate-limited bots are a \<open>Map\<close>,
  iterated in insertion order: an association list. A delay is put into the text by the
  platform's conversion of a number to a string, the argument \<open>numberToString\<close>.
\<close>

text \<open>The loop over the blocked bots, appending to \<open>content\<close>.\<close>

fun blocked_loop :: "string list \<Rightarrow> string \<Rightarrow> string" where
  "blocked_loop [] content = content"
| "blocked_loop (b # rest) content =
     blocked_loop rest
       (content @ (''User-agent: '' @ b @ ''\<newline>'') @ ''Disallow: /\<newline>\<newline>'')"

text \<open>The loop over the entries of the rate-limited bots.\<close>

fun rate_limited_loop :: "('n \<Rightarrow> string) \<Rightarrow> (string \<times> 'n) list \<Rightarrow> string \<Rightarrow> string" where
  "rate_limited_loop numberToString [] content = content"
| "rate_limited_loop numberToString ((b, delay) # rest) content =
     rate_limited_loop numberToString rest
       (content @ (''User-agent: '' @ b @ ''\<newline>'') @
        (''Crawl-delay: '' @ numberToString delay @ ''\<newline>'') @
        ''Allow: /\<newline>\<newline>'')"

definition generateRobotsTxt ::
  "string \<Rightarrow> ('n \<Rightarrow> string) \<Rightarrow> string list \<Rightarrow> (string \<times> 'n) list \<Rightarrow> string" where
  "generateRobotsTxt now numberToString blockedBots rateLimitedBots =
     (let content = ''# AI Crawler Monitor - Generated robots.txt\<newline>'';
          content = content @ (''# Generated: '' @ now @ ''\<newline>\<newline>'');
          content = content @ ''# Search Engines (Allowed)\<newline>'';
          content = content @ ''User-agent: Googlebot\<newline>'';
          content = content @ ''Allow: /\<newline>\<newline>'';
          content = content @ ''User-agent: bingbot\<newline>'';
          content = content @ ''Allow: /\<newline>\<newline>'';
          content = (if length blockedBots > 0
                     then blocked_loop blockedBots (content @ ''# Blocked Bots\<newline>'')
                     else content);
          content = (if length rateLimitedBots > 0
                     then rate_limited_loop numberToString rateLimitedBots
                            (content @ ''# Rate Limited Bots\<newline>'')
                     else content);
          content = content @ ''# Default\<newline>'';
          content = content @ ''User-agent: *\<newline>'';
          content = content @ ''Allow: /\<newline>'';
          content = content @ ''Sitemap: /sitemap.xml\<newline>''
      in content)"

text \<open>The decimal digits of a natural number, as the platform prints an integer delay.\<close>

fun decimal :: "nat \<Rightarrow> string" where
  "decimal n =
     (if n < 10 then [char_of (48 + n)] else decimal (n div 10) @ [char_of (48 + n mod 10)])"

section \<open>Log parser (lib/log-parser.ts)\<close>

text \<open>
  The values a parsed JSON text can hold, and \<open>undefined\<close>. An object is the list of
  its members in the order of the text.
\<close>

datatype jsval =
    JUndefined
  | JNull
  | JBool bool
  | JNum jsnum
  | JStr string
  | JArr "jsval list"
  | JObj "(string \<times> jsval) list"

text \<open>
  A \<open>Date\<close> is kept as the value it was constructed from: how the platform reads a date
  is not modelled, only whether constructing it throws (\<open>date_throws\<close> below).
\<close>

datatype jsdate = NewDate jsval

text \<open>
  The fields of a log entry hold what the parser puts there. The JSON branch copies
  members of the parsed value unchecked, so a field is any value. The entry's \<open>method\<close>
  field is \<open>http_method\<close> here.
\<close>

record LogEntry =
  timestamp :: jsdate
  ip :: jsval
  http_method :: jsval
  path :: jsval
  status :: jsval
  bytes :: jsval
  userAgent :: jsval
  responseTime :: jsval

text \<open>
  The pattern of \<open>parseCommonLog\<close>, without its leading \<open>^\<close> (see \<open>rx_match_start\<close>):
  \<^verbatim>\<open>^(\S+) \S+ \S+ \[([^\]]+)\] "(\S+) (\S+) \S+" (\d+) (\d+) "[^"]*" "([^"]*)"$\<close>
\<close>

definition commonLogPattern :: rx where
  "commonLogPattern = seqs [
     Grp (Plus nonspace), Lit '' '', Plus nonspace, Lit '' '', Plus nonspace, Lit '' ['',
     Grp (Plus (none_of '']'')), Lit ''] \"'',
     Grp (Plus nonspace), Lit '' '', Grp (Plus nonspace), Lit '' '', Plus nonspace,
     Lit ''\" '', Grp (Plus digit), Lit '' '', Grp (Plus digit), Lit '' \"'',
     Star (none_of ''\"''), Lit ''\" \"'', Grp (Star (none_of ''\"'')), Lit ''\"'', Eol]"

text \<open>
  \<open>parseInt\<close> on the text of a \<open>\d+\<close> group: the number its leading decimal digits
  write, rounded to the nearest double (\<open>Infinity\<close> from about 309 digits on), \<open>NaN\<close>
  if it has none. (White space, a sign and a \<open>0x\<close> prefix, which \<open>parseInt\<close> also reads,
  cannot begin such a text.)
\<close>

definition digit_value :: "char \<Rightarrow> int" where
  "digit_value c = of_char c - 48"

definition digits_value :: "string \<Rightarrow> int" where
  "digits_value s = foldl (\<lambda>n c. 10 * n + digit_value c) 0 s"

definition parseInt :: "string \<Rightarrow> jsnum" where
  "parseInt s =
     (case takeWhile digit s of
        [] \<Rightarrow> NaN
      | d # ds \<Rightarrow> to_jsnum (round_dbl False (of_int (digits_value (d # ds)))))"

text \<open>
  \<open>parseCommonLog\<close>. \<open>Math.random()\<close> is the argument \<open>random\<close>, a number from 0 up to
  but not including 1, drawn anew at each call.
\<close>

definition parseCommonLog :: "real \<Rightarrow> string \<Rightarrow> LogEntry option" where
  "parseCommonLog random line =
     (case rx_match_start False commonLogPattern line of
        Some [m1, m2, m3, m4, m5, m6, m7] \<Rightarrow>
          Some \<lparr>timestamp = NewDate (JStr m2),
                 ip = JStr m1,
                 http_method = JStr m3,
                 path = JStr m4,
                 status = JNum (parseInt m5),
                 bytes = JNum (parseInt m6),
                 userAgent = JStr m7,
                 responseTime = JNum (Fin (of_int \<lfloor>random * 500\<rfloor>))\<rparr>
      | _ \<Rightarrow> None)"

text \<open>
  Reading a property of a parsed JSON value: \<open>None\<close> is the \<open>TypeError\<close> of reading a
  property of \<open>null\<close> or \<open>undefined\<close>. Of an object's members with one key the last
  counts. No other value has a property of one of the eight names the parser reads.
\<close>

fun get_property :: "jsval \<Rightarrow> string \<Rightarrow> jsval option" where
  "get_property JUndefined key = None"
| "get_property JNull key = None"
| "get_property (JObj members) key =
     Some (case map_of (rev members) key of Some v \<Rightarrow> v | None \<Rightarrow> JUndefined)"
| "get_property v key = Some JUndefined"

text \<open>
  \<open>new Date(v)\<close> on a parsed JSON value \<open>v\<close> converts an object or an array to a
  primitive, and that conversion can raise a \<open>TypeError\<close>. A parsed object is converted by
  the \<open>toString\<close> it inherits, unless it has a member \<open>toString\<close> of its own: no parsed
  value is callable, so the conversion then finds no method and throws. An array is
  converted by joining the strings of its elements (\<open>null\<close> gives the empty string), each
  converted in the same way. On every other value the constructor returns a date.
\<close>

fun date_throws :: "jsval \<Rightarrow> bool" where
  "date_throws (JObj members) = (''toString'' \<in> set (map fst members))"
| "date_throws (JArr elements) = list_ex date_throws elements"
| "date_throws v = False"

text \<open>
  \<open>parseJsonLog\<close>. The platform's \<open>JSON.parse\<close> is the argument \<open>JSON_parse\<close>, \<open>None\<close>
  being its \<open>SyntaxError\<close>; the \<open>catch\<close> turns every exception into \<open>null\<close>. The
  parsed value is \<open>log'\<close> (the source's \<open>log\<close>). The members of the returned object are
  evaluated in the order written, the date first.
\<close>

definition parseJsonLog :: "(string \<Rightarrow> jsval option) \<Rightarrow> string \<Rightarrow> LogEntry option" where
  "parseJsonLog JSON_parse line =
     (case JSON_parse line of
        None \<Rightarrow> None
      | Some log' \<Rightarrow>
          Option.bind (get_property log' ''timestamp'') (\<lambda>v1.
          if date_throws v1 then None else
          Option.bind (get_property log' ''ip'') (\<lambda>v2.
          Option.bind (get_property log' ''method'') (\<lambda>v3.
          Option.bind (get_property log' ''path'') (\<lambda>v4.
          Option.bind (get_property log' ''status'') (\<lambda>v5.
          Option.bind (get_property log' ''bytes'') (\<lambda>v6.
          Option.bind (get_property log' ''user_agent'') (\<lambda>v7.
          Option.bind (get_property log' ''response_time'') (\<lambda>v8.
            Some \<lparr>timestamp = NewDate v1, ip = v2, http_method = v3, path = v4,
                   status = v5, bytes = v6, userAgent = v7, responseTime = v8\<rparr>)))))))))"

text \<open>
  How the log-processing route parses a line:
  \<open>logParser.parseCommonLog(line) || logParser.parseJsonLog(line)\<close>.
\<close>

definition parse_line :: "(string \<Rightarrow> jsval option) \<Rightarrow> real \<Rightarrow> string \<Rightarrow> LogEntry option" where
  "parse_line JSON_parse random line =
     (case parseCommonLog random line of
        Some entry \<Rightarrow> Some entry
      | None \<Rightarrow> parseJsonLog JSON_parse line)"

section \<open>Properties of the bot detector\<close>

lemma scan_signatures_first:
  assumes "\<forall>(n, s) \<in> set pre. \<not> rx_test True (pattern s) ua"
      and "rx_test True (pattern sg) ua"
  shows "scan_signatures (pre @ (name, sg) # post) ua =
           Some \<lparr>isBot = True, botName = Some name,
                  category = Some (sig_category sg), severity = Some (sig_severity sg),
                  description = Some (sig_description sg),
                  recommendation = Some (sig_recommendation sg),
                  confidence = Fin 0.95\<rparr>"
  using assms by (induction pre) auto

lemma scan_signatures_none:
  "(\<forall>(n, s) \<in> set sigs. \<not> rx_test True (pattern s) ua) \<Longrightarrow> scan_signatures sigs ua = None"
  by (induction sigs) auto

lemma scan_generic_none:
  "(\<forall>(p, c) \<in> set pats. \<not> rx_test True p ua) \<Longrightarrow> scan_generic pats ua = None"
  by (induction pats) auto

lemma signatures_reject_empty:
  "\<forall>(n, s) \<in> set signatures. \<not> rx_test True (pattern s) []"
  by code_simp

lemma scan_signatures_shape:
  "scan_signatures sigs ua = Some r \<Longrightarrow>
     isBot r \<and> botName r \<noteq> None \<and> confidence r = Fin 0.95"
  by (induction sigs) (auto split: if_splits)

lemma scan_generic_shape:
  "scan_generic pats ua = Some r \<Longrightarrow>
     isBot r \<and> botName r \<noteq> None \<and> confidence r \<in> snd ` set pats"
  by (induction pats) (auto split: if_splits)

lemma detect_first_signature:
  assumes "signatures = pre @ (name, sg) # post"
      and "\<forall>(n, s) \<in> set pre. \<not> rx_test True (pattern s) ua"
      and "rx_test True (pattern sg) ua"
  shows "detect (Some ua) =
           \<lparr>isBot = True, botName = Some name,
            category = Some (sig_category sg), severity = Some (sig_severity sg),
            description = Some (sig_description sg),
            recommendation = Some (sig_recommendation sg),
            confidence = Fin 0.95\<rparr>"
proof -
  have "(name, sg) \<in> set signatures"
    unfolding assms(1) by simp
  with signatures_reject_empty have "\<not> rx_test True (pattern sg) []"
    by blast
  with assms(3) have "ua \<noteq> []"
    by auto
  moreover have "scan_signatures signatures ua =
           Some \<lparr>isBot = True, botName = Some name,
                  category = Some (sig_category sg), severity = Some (sig_severity sg),
                  description = Some (sig_description sg),
                  recommendation = Some (sig_recommendation sg),
                  confidence = Fin 0.95\<rparr>"
    unfolding assms(1) using assms(2,3) by (rule scan_signatures_first)
  ultimately show ?thesis
    by (simp add: detect_def)
qed

lemma first_match_exists:
  assumes "\<exists>(n, s) \<in> set sigs. rx_test True (pattern s) ua"
  shows "\<exists>pre name sg post. sigs = pre @ (name, sg) # post \<and>
           (\<forall>(n, s) \<in> set pre. \<not> rx_test True (pattern s) ua) \<and>
           rx_test True (pattern sg) ua"
proof -
  from assms have "\<exists>x \<in> set sigs. rx_test True (pattern (snd x)) ua"
    by force
  then obtain pre x post where
    "sigs = pre @ x # post" "rx_test True (pattern (snd x)) ua"
    "\<forall>y \<in> set pre. \<not> rx_test True (pattern (snd y)) ua"
    by (auto dest!: split_list_first_prop)
  then have "sigs = pre @ (fst x, snd x) # post \<and>
      (\<forall>(n, s) \<in> set pre. \<not> rx_test True (pattern s) ua) \<and>
      rx_test True (pattern (snd x)) ua"
    by auto
  then show ?thesis
    by blast
qed

text \<open>
  Claim C1. Whenever a user agent matches the pattern of a registry signature and of no
  signature declared before it, \<open>detect\<close> returns that signature: \<open>isBot\<close> is true,
  \<open>botName\<close> is the signature's registry name, the confidence is 0.95, and category,
  severity, description and recommendation are the signature's. So for a string that
  two or more patterns match, the one declared first wins. And a user agent that matches
  at least one pattern of the registry has such a first signature.
\<close>

theorem detect_first_signature_wins:
  "(signatures = pre @ (name, sg) # post \<and>
    (\<forall>(n, s) \<in> set pre. \<not> rx_test True (pattern s) ua) \<and>
    rx_test True (pattern sg) ua \<longrightarrow>
    detect (Some ua) =
      \<lparr>isBot = True, botName = Some name,
       category = Some (sig_category sg), severity = Some (sig_severity sg),
       description = Some (sig_description sg),
       recommendation = Some (sig_recommendation sg),
       confidence = Fin 0.95\<rparr>) \<and>
   ((\<exists>(n, s) \<in> set signatures. rx_test True (pattern s) ua') \<longrightarrow>
    (\<exists>pre' name' sg' post'. signatures = pre' @ (name', sg') # post' \<and>
       (\<forall>(n, s) \<in> set pre'. \<not> rx_test True (pattern s) ua') \<and>
       rx_test True (pattern sg') ua'))"
  using detect_first_signature [of pre name sg post ua] first_match_exists [of signatures ua']
  by blast

text \<open>
  The user agent \<open>Googlebot bingbot\<close> matches the patterns of the eighth and the ninth
  signature and of none before them; the result is the eighth, Googlebot.
\<close>

theorem detect_first_signature_wins_witness:
  "rx_test True (Lit ''Googlebot'') ''Googlebot bingbot'' \<and>
   rx_test True (Lit ''bingbot'') ''Googlebot bingbot'' \<and>
   detect (Some ''Googlebot bingbot'') =
     \<lparr>isBot = True, botName = Some ''Googlebot'',
      category = Some ''search_engine'', severity = Some ''low'',
      description = Some ''Google search crawler'',
      recommendation = Some ''allow'', confidence = Fin 0.95\<rparr>"
proof -
  let ?sg = "\<lparr>pattern = Lit ''Googlebot'', sig_category = ''search_engine'',
              sig_severity = ''low'', sig_description = ''Google search crawler'',
              sig_recommendation = ''allow'', rateLimit = None\<rparr>"
  have split: "signatures = take 7 signatures @ (''Googlebot'', ?sg) # drop 8 signatures"
    by (simp add: signatures_def)
  have before: "\<forall>(n, s) \<in> set (take 7 signatures). \<not> rx_test True (pattern s) ''Googlebot bingbot''"
    by code_simp
  have here: "rx_test True (pattern ?sg) ''Googlebot bingbot''"
    by code_simp
  have other: "rx_test True (Lit ''bingbot'') ''Googlebot bingbot''"
    by code_simp
  from detect_first_signature_wins [of "take 7 signatures" "''Googlebot''" ?sg
      "drop 8 signatures" "''Googlebot bingbot''"] split before here other
  show ?thesis by simp
qed

text \<open>
  Claim C5. For every user agent, absent and empty included, the result of \<open>detect\<close>
  has a bot name whenever \<open>isBot\<close> is true, and a confidence between 0 and 1.
\<close>

theorem detect_invariants:
  "(isBot (detect ua) \<longrightarrow> botName (detect ua) \<noteq> None) \<and>
   jle (Fin 0) (confidence (detect ua)) \<and> jle (confidence (detect ua)) (Fin 1)"
proof -
  have nab: "\<not> isBot not_a_bot \<and> confidence not_a_bot = Fin 1"
    by (simp add: not_a_bot_def)
  have gen: "snd ` set genericPatterns = {Fin 0.8, Fin 0.7, Fin 0.9}"
    by (auto simp: genericPatterns_def)
  show ?thesis
  proof (cases "detect ua = not_a_bot")
    case True
    with nab show ?thesis
      by (simp add: jle_def)
  next
    case False
    then obtain s where ua: "ua = Some s"
      by (cases ua) (auto simp: detect_def)
    show ?thesis
    proof (cases "scan_signatures signatures s")
      case (Some r)
      with ua False have "detect ua = r"
        by (auto simp: detect_def split: if_splits)
      with scan_signatures_shape [OF Some] show ?thesis
        by (simp add: jle_def)
    next
      case None
      with ua False obtain r where r: "scan_generic genericPatterns s = Some r" "detect ua = r"
        by (auto simp: detect_def split: if_splits option.splits)
      from scan_generic_shape [OF r(1)] gen r(2) show ?thesis
        by (auto simp: jle_def)
    qed
  qed
qed

text \<open>
  At \<open>curl/8.0\<close>, which only a generic pattern matches, \<open>isBot\<close> is true and the
  invariants hold.
\<close>

theorem detect_invariants_witness:
  "isBot (detect (Some ''curl/8.0'')) \<and> botName (detect (Some ''curl/8.0'')) \<noteq> None \<and>
   jle (Fin 0) (confidence (detect (Some ''curl/8.0''))) \<and>
   jle (confidence (detect (Some ''curl/8.0''))) (Fin 1)"
proof -
  have "isBot (detect (Some ''curl/8.0''))"
    by code_simp
  with detect_invariants [of "Some ''curl/8.0''"] show ?thesis
    by simp
qed

text \<open>
  Claim C6. An absent or empty user agent is not a bot, with no name, category or
  severity and confidence 1; so is a user agent that no registry pattern and no generic
  pattern matches.
\<close>

theorem detect_not_a_bot:
  "detect None =
     \<lparr>isBot = False, botName = None, category = None, severity = None,
      description = None, recommendation = None, confidence = Fin 1\<rparr> \<and>
   detect (Some []) =
     \<lparr>isBot = False, botName = None, category = None, severity = None,
      description = None, recommendation = None, confidence = Fin 1\<rparr> \<and>
   ((\<forall>(n, s) \<in> set signatures. \<not> rx_test True (pattern s) ua) \<and>
    (\<forall>(p, c) \<in> set genericPatterns. \<not> rx_test True p ua) \<longrightarrow>
    detect (Some ua) =
      \<lparr>isBot = False, botName = None, category = None, severity = None,
       description = None, recommendation = None, confidence = Fin 1\<rparr>)"
  by (simp add: detect_def not_a_bot_def scan_signatures_none scan_generic_none)

text \<open>
  A browser's user agent that matches no pattern.
\<close>

theorem detect_not_a_bot_witness:
  "list_all (\<lambda>(n, s). \<not> rx_test True (pattern s) ''Mozilla/5.0'') signatures \<and>
   list_all (\<lambda>(p, c). \<not> rx_test True p ''Mozilla/5.0'') genericPatterns \<and>
   detect (Some ''Mozilla/5.0'') =
      \<lparr>isBot = False, botName = None, category = None, severity = None,
       description = None, recommendation = None, confidence = Fin 1\<rparr>"
proof -
  have a: "list_all (\<lambda>(n, s). \<not> rx_test True (pattern s) ''Mozilla/5.0'') signatures"
    by code_simp
  have b: "list_all (\<lambda>(p, c). \<not> rx_test True p ''Mozilla/5.0'') genericPatterns"
    by code_simp
  from detect_not_a_bot [of "''Mozilla/5.0''"] a b show ?thesis
    by (simp add: list_all_iff)
qed

section \<open>Properties of the cost calculator\<close>

lemma jsub_fin [simp]: "jsub (Fin a) (Fin b) = Fin (a - b)"
  by (simp add: jsub_def)

lemma jsub_inf_fin [simp]: "jsub PInf (Fin b) = PInf" "jsub NInf (Fin b) = NInf" "jsub NaN (Fin b) = NaN"
  by (simp_all add: jsub_def)

lemma jmin_fin [simp]: "jmin (Fin a) (Fin b) = Fin (min a b)"
  "jmin (Fin a) PInf = Fin a" "jmin (Fin a) NInf = NInf" "jmin (Fin a) NaN = NaN"
  by (simp_all add: jmin_def min_def)

lemma jgt_fin [simp]: "jgt (Fin a) (Fin b) = (b < a)" "jgt NInf (Fin b) = False" "jgt NaN (Fin b) = False"
  by (simp_all add: jgt_def)

lemma jle_fin [simp]: "jle (Fin a) (Fin b) = (a \<le> b)"
  by (auto simp: jle_def)

lemma tiered_step_fin:
  assumes "costPerGB tier = Fin k" "upToGB tier = Fin u"
  shows "tiered_loop (tier # tiers) (Fin r) (Fin t) (Fin p) =
           (if 0 < min r (u - p)
            then (if r - min r (u - p) \<le> 0 then Fin (t + min r (u - p) * k)
                  else tiered_loop tiers (Fin (r - min r (u - p))) (Fin (t + min r (u - p) * k)) (Fin u))
            else (if r \<le> 0 then Fin t else tiered_loop tiers (Fin r) (Fin t) (Fin p)))"
  using assms by (simp add: Let_def)

lemma tiered_step_inf:
  assumes "costPerGB tier = Fin k" "upToGB tier = PInf"
  shows "tiered_loop (tier # tiers) (Fin r) (Fin t) (Fin p) =
           (if 0 < r then Fin (t + r * k) else Fin t)"
  using assms by (simp add: Let_def)

lemma tiered_step_skip:
  assumes "upToGB tier = NInf \<or> upToGB tier = NaN"
  shows "tiered_loop (tier # tiers) (Fin r) (Fin t) (Fin p) =
           (if r \<le> 0 then Fin t else tiered_loop tiers (Fin r) (Fin t) (Fin p))"
  using assms by (auto simp: Let_def)

lemma tiered_loop_fin_ge:
  "list_all rate_ok tiers \<Longrightarrow>
     \<exists>c. tiered_loop tiers (Fin r) (Fin t) (Fin p) = Fin c \<and> t \<le> c"
proof (induction tiers arbitrary: r t p)
  case Nil
  then show ?case by simp
next
  case (Cons tier tiers)
  from Cons.prems obtain k where k: "costPerGB tier = Fin k" "0 \<le> k"
    by (auto simp: rate_ok_def split: jsnum.splits)
  from Cons.prems have rest: "list_all rate_ok tiers"
    by simp
  note IH = Cons.IH [OF rest]
  show ?case
  proof (cases "upToGB tier")
    case (Fin u)
    define g where "g = min r (u - p)"
    show ?thesis
    proof (cases "0 < g")
      case True
      then have gk: "0 \<le> g * k"
        using k(2) by simp
      from IH [of "r - g" "t + g * k" u]
      obtain c where "tiered_loop tiers (Fin (r - g)) (Fin (t + g * k)) (Fin u) = Fin c"
        "t + g * k \<le> c" by blast
      with gk True show ?thesis
        unfolding tiered_step_fin [OF k(1) Fin] g_def [symmetric] by auto
    next
      case False
      with IH [of r t p] show ?thesis
        unfolding tiered_step_fin [OF k(1) Fin] g_def [symmetric] by auto
    qed
  next
    case PInf
    have "0 < r \<Longrightarrow> 0 \<le> r * k"
      using k(2) by simp
    then show ?thesis
      unfolding tiered_step_inf [OF k(1) PInf] by auto
  next
    case NInf
    with IH [of r t p] show ?thesis
      by (auto simp: tiered_step_skip)
  next
    case NaN
    with IH [of r t p] show ?thesis
      by (auto simp: tiered_step_skip)
  qed
qed

lemma tiered_loop_mono:
  "list_all rate_ok tiers \<Longrightarrow> r1 \<le> r2 \<Longrightarrow> t1 \<le> t2 \<Longrightarrow>
     \<exists>c1 c2. tiered_loop tiers (Fin r1) (Fin t1) (Fin p) = Fin c1 \<and>
             tiered_loop tiers (Fin r2) (Fin t2) (Fin p) = Fin c2 \<and> c1 \<le> c2"
proof (induction tiers arbitrary: r1 r2 t1 t2 p)
  case Nil
  then show ?case by simp
next
  case (Cons tier tiers)
  from Cons.prems obtain k where k: "costPerGB tier = Fin k" "0 \<le> k"
    by (auto simp: rate_ok_def split: jsnum.splits)
  from Cons.prems have rest: "list_all rate_ok tiers"
    by simp
  note IH = Cons.IH [OF rest]
  note GE = tiered_loop_fin_ge [OF rest]
  show ?case
  proof (cases "upToGB tier")
    case (Fin u)
    define g1 where "g1 = min r1 (u - p)"
    define g2 where "g2 = min r2 (u - p)"
    have g12: "g1 \<le> g2"
      using Cons.prems(2) by (simp add: g1_def g2_def min_le_iff_disj)
    have rem: "r1 - g1 \<le> r2 - g2"
      using Cons.prems(2) by (simp add: g1_def g2_def min_def)
    have step1: "tiered_loop (tier # tiers) (Fin r1) (Fin t1) (Fin p) =
           (if 0 < g1
            then (if r1 - g1 \<le> 0 then Fin (t1 + g1 * k)
                  else tiered_loop tiers (Fin (r1 - g1)) (Fin (t1 + g1 * k)) (Fin u))
            else (if r1 \<le> 0 then Fin t1 else tiered_loop tiers (Fin r1) (Fin t1) (Fin p)))"
      unfolding g1_def by (rule tiered_step_fin [OF k(1) Fin])
    have step2: "tiered_loop (tier # tiers) (Fin r2) (Fin t2) (Fin p) =
           (if 0 < g2
            then (if r2 - g2 \<le> 0 then Fin (t2 + g2 * k)
                  else tiered_loop tiers (Fin (r2 - g2)) (Fin (t2 + g2 * k)) (Fin u))
            else (if r2 \<le> 0 then Fin t2 else tiered_loop tiers (Fin r2) (Fin t2) (Fin p)))"
      unfolding g2_def by (rule tiered_step_fin [OF k(1) Fin])
    have tot: "0 < g1 \<Longrightarrow> t1 + g1 * k \<le> t2 + g2 * k"
      using g12 k(2) Cons.prems(3) by (simp add: add_mono mult_right_mono)
    have tot2: "0 < g2 \<Longrightarrow> t1 \<le> t2 + g2 * k"
      using k(2) Cons.prems(3) by (simp add: add_increasing2)
    consider (both) "0 < g1" "0 < g2" | (second) "\<not> 0 < g1" "0 < g2" | (neither) "\<not> 0 < g1" "\<not> 0 < g2"
      using g12 by fastforce
    then show ?thesis
    proof cases
      case both
      show ?thesis
      proof (cases "r1 - g1 \<le> 0")
        case True
        from GE [of "r2 - g2" "t2 + g2 * k" u] tot [OF both(1)] True both show ?thesis
          unfolding step1 step2 by auto
      next
        case False
        with rem have "\<not> r2 - g2 \<le> 0" by simp
        with IH [OF rem tot [OF both(1)], of u] False both show ?thesis
          unfolding step1 step2 by auto
      qed
    next
      case second
      then have "r1 \<le> 0"
        by (auto simp: g1_def g2_def min_def split: if_splits)
      with GE [of "r2 - g2" "t2 + g2 * k" u] tot2 [OF second(2)] second show ?thesis
        unfolding step1 step2 by auto
    next
      case neither
      show ?thesis
      proof (cases "r1 \<le> 0")
        case True
        with GE [of r2 t2 p] Cons.prems(3) neither show ?thesis
          unfolding step1 step2 by auto
      next
        case False
        with Cons.prems(2) have "\<not> r2 \<le> 0" by simp
        with IH [OF Cons.prems(2,3), of p] False neither show ?thesis
          unfolding step1 step2 by auto
      qed
    qed
  next
    case PInf
    have "0 < r1 \<Longrightarrow> t1 + r1 * k \<le> t2 + r2 * k"
      using k(2) Cons.prems(2,3) by (simp add: add_mono mult_right_mono)
    moreover have "0 < r2 \<Longrightarrow> t1 \<le> t2 + r2 * k"
      using k(2) Cons.prems(3) by (simp add: add_increasing2)
    ultimately show ?thesis
      unfolding tiered_step_inf [OF k(1) PInf] using Cons.prems(2,3) by auto
  next
    case NInf
    then have skip: "upToGB tier = NInf \<or> upToGB tier = NaN" by simp
    show ?thesis
    proof (cases "r1 \<le> 0")
      case True
      with GE [of r2 t2 p] Cons.prems(3) show ?thesis
        unfolding tiered_step_skip [OF skip] by auto
    next
      case False
      with Cons.prems(2) have "\<not> r2 \<le> 0" by simp
      with IH [OF Cons.prems(2,3), of p] False show ?thesis
        unfolding tiered_step_skip [OF skip] by auto
    qed
  next
    case NaN
    then have skip: "upToGB tier = NInf \<or> upToGB tier = NaN" by simp
    show ?thesis
    proof (cases "r1 \<le> 0")
      case True
      with GE [of r2 t2 p] Cons.prems(3) show ?thesis
        unfolding tiered_step_skip [OF skip] by auto
    next
      case False
      with Cons.prems(2) have "\<not> r2 \<le> 0" by simp
      with IH [OF Cons.prems(2,3), of p] False show ?thesis
        unfolding tiered_step_skip [OF skip] by auto
    qed
  qed
qed

lemma generic_cost:
  "calculateBandwidthCost (Fin b) ''generic'' =
     \<lparr>bandwidth = \<lparr>gb = Fin (b / 1024 ^ 3), cost = Fin (b / 1024 ^ 3 * 0.10)\<rparr>,
      total = Fin (b / 1024 ^ 3 * 0.10), monthly = Fin (b / 1024 ^ 3 * 0.10 * 30),
      yearly = Fin (b / 1024 ^ 3 * 0.10 * 365)\<rparr>"
  by (simp add: calculateBandwidthCost_def get_provider_def providers_def genericProvider_def
      jtruthy_def or_default_def Let_def)

text \<open>
  Claim C7. For a well-formed tier table, \<open>calculateTieredCost\<close> does not decrease
  when the amount, a finite number, grows; and for a table of one unbounded tier the cost
  of an amount that is not negative is the amount times the tier's rate.
\<close>

theorem calculateTieredCost_monotone:
  "(well_formed_tiers tiers \<longrightarrow> gb1 \<le> gb2 \<longrightarrow>
      jle (calculateTieredCost (Fin gb1) tiers) (calculateTieredCost (Fin gb2) tiers)) \<and>
   (0 \<le> gb1 \<longrightarrow>
      calculateTieredCost (Fin gb1) [\<lparr>upToGB = PInf, costPerGB = Fin rate\<rparr>] = Fin (gb1 * rate))"
proof (intro conjI impI)
  assume wf: "well_formed_tiers tiers" and le: "gb1 \<le> gb2"
  from wf have "list_all rate_ok tiers"
    by (simp add: well_formed_tiers_def)
  from tiered_loop_mono [OF this le, of 0 0 0]
  show "jle (calculateTieredCost (Fin gb1) tiers) (calculateTieredCost (Fin gb2) tiers)"
    by (auto simp: calculateTieredCost_def)
next
  assume "0 \<le> gb1"
  have "tiered_loop [\<lparr>upToGB = PInf, costPerGB = Fin rate\<rparr>] (Fin gb1) (Fin 0) (Fin 0) =
          (if 0 < gb1 then Fin (0 + gb1 * rate) else Fin 0)"
    by (rule tiered_step_inf) simp_all
  with \<open>0 \<le> gb1\<close>
  show "calculateTieredCost (Fin gb1) [\<lparr>upToGB = PInf, costPerGB = Fin rate\<rparr>] = Fin (gb1 * rate)"
    by (auto simp: calculateTieredCost_def)
qed

text \<open>
  The tier table of the AWS provider: 5 GB cost 0.45 and 20 GB cost 1.75; and 4 GB at a
  flat 0.03 cost 0.12.
\<close>

theorem calculateTieredCost_monotone_witness:
  "let tiers = [\<lparr>upToGB = Fin 10, costPerGB = Fin 0.09\<rparr>,
                \<lparr>upToGB = Fin 40, costPerGB = Fin 0.085\<rparr>,
                \<lparr>upToGB = Fin 100, costPerGB = Fin 0.07\<rparr>,
                \<lparr>upToGB = Fin 150, costPerGB = Fin 0.05\<rparr>,
                \<lparr>upToGB = PInf, costPerGB = Fin 0.03\<rparr>]
   in well_formed_tiers tiers \<and>
      calculateTieredCost (Fin 5) tiers = Fin 0.45 \<and>
      calculateTieredCost (Fin 20) tiers = Fin 1.75 \<and>
      jle (calculateTieredCost (Fin 5) tiers) (calculateTieredCost (Fin 20) tiers) \<and>
      calculateTieredCost (Fin 4) [\<lparr>upToGB = PInf, costPerGB = Fin 0.03\<rparr>] = Fin 0.12"
proof -
  define tiers where "tiers = [\<lparr>upToGB = Fin 10, costPerGB = Fin 0.09\<rparr>,
                \<lparr>upToGB = Fin 40, costPerGB = Fin 0.085\<rparr>,
                \<lparr>upToGB = Fin 100, costPerGB = Fin 0.07\<rparr>,
                \<lparr>upToGB = Fin 150, costPerGB = Fin 0.05\<rparr>,
                \<lparr>upToGB = PInf, costPerGB = Fin 0.03\<rparr>]"
  have wf: "well_formed_tiers tiers"
    by (simp add: tiers_def well_formed_tiers_def rate_ok_def)
  have c5: "calculateTieredCost (Fin 5) tiers = Fin 0.45"
    by (simp add: tiers_def calculateTieredCost_def Let_def)
  have c20: "calculateTieredCost (Fin 20) tiers = Fin 1.75"
    by (simp add: tiers_def calculateTieredCost_def Let_def)
  from calculateTieredCost_monotone [of tiers 5 20] wf
  have "jle (calculateTieredCost (Fin 5) tiers) (calculateTieredCost (Fin 20) tiers)"
    by simp
  moreover from calculateTieredCost_monotone [of tiers 4 20 "0.03"]
  have "calculateTieredCost (Fin 4) [\<lparr>upToGB = PInf, costPerGB = Fin 0.03\<rparr>] = Fin 0.12"
    by simp
  ultimately show ?thesis
    using wf c5 c20 unfolding Let_def tiers_def by simp
qed

lemma savings_loop_breakdown:
  "fst (savings_loop provider bs (m, tot)) c =
     (case filter (\<lambda>b. traffic_category b = c) bs of
        [] \<Rightarrow> m c
      | b # rest \<Rightarrow> Some (record_cost provider (last (b # rest))))"
proof (induction bs arbitrary: m tot)
  case Nil
  then show ?case by simp
next
  case (Cons b bs)
  show ?case
  proof (cases "filter (\<lambda>b. traffic_category b = c) bs")
    case Nil
    with Cons.IH show ?thesis
      by (auto simp: Let_def)
  next
    case (Cons b' rest)
    with Cons.IH show ?thesis
      by (auto simp: Let_def)
  qed
qed

lemma savings_loop_total:
  "snd (savings_loop provider bs (m, tot)) =
     foldl jadd tot (map (\<lambda>b. total (record_cost provider b)) bs)"
  by (induction bs arbitrary: m tot) (simp_all add: Let_def)

text \<open>
  Claim C10. In the result of \<open>calculateSavingsByCategory\<close>, \<open>byCategory\<close> holds for
  each category the cost breakdown of the last input record of that category, and
  nothing for a category with no record; the total is the sum, in input order, of the
  totals of every record's breakdown, the overwritten ones included; monthly and yearly
  are 30 and 365 times the total.
\<close>

theorem calculateSavingsByCategory_last_wins:
  "byCategory (calculateSavingsByCategory botTraffic provider) c =
     (case filter (\<lambda>b. traffic_category b = c) botTraffic of
        [] \<Rightarrow> None
      | b # rest \<Rightarrow> Some (record_cost provider (last (b # rest)))) \<and>
   savings_total (calculateSavingsByCategory botTraffic provider) =
     foldl jadd (Fin 0) (map (\<lambda>b. total (record_cost provider b)) botTraffic) \<and>
   savings_monthly (calculateSavingsByCategory botTraffic provider) =
     jmul (savings_total (calculateSavingsByCategory botTraffic provider)) (Fin 30) \<and>
   savings_yearly (calculateSavingsByCategory botTraffic provider) =
     jmul (savings_total (calculateSavingsByCategory botTraffic provider)) (Fin 365)"
proof -
  obtain m tot where run: "savings_loop provider botTraffic (Map.empty, Fin 0) = (m, tot)"
    by (cases "savings_loop provider botTraffic (Map.empty, Fin 0)")
  from savings_loop_breakdown [of provider botTraffic Map.empty "Fin 0" c] run
  have "m c = (case filter (\<lambda>b. traffic_category b = c) botTraffic of
        [] \<Rightarrow> None
      | b # rest \<Rightarrow> Some (record_cost provider (last (b # rest))))"
    by simp
  moreover from savings_loop_total [of provider botTraffic Map.empty "Fin 0"] run
  have "tot = foldl jadd (Fin 0) (map (\<lambda>b. total (record_cost provider b)) botTraffic)"
    by simp
  ultimately show ?thesis
    by (simp add: calculateSavingsByCategory_def run)
qed

text \<open>
  Two scraper records, of 1 GB and 5 GB, and the generic provider: \<open>byCategory\<close> holds
  the breakdown of the second record only, and the total is the sum of both.
\<close>

theorem calculateSavingsByCategory_last_wins_witness:
  "byCategory
     (calculateSavingsByCategory
        [\<lparr>traffic_botName = ''CCBot'', traffic_category = ''ai_scraper'',
          bytesTransferred = Fin 1073741824, requestCount = Fin 10\<rparr>,
         \<lparr>traffic_botName = ''Bytespider'', traffic_category = ''ai_scraper'',
          bytesTransferred = Fin 5368709120, requestCount = Fin 20\<rparr>] ''generic'')
     ''ai_scraper'' =
     Some \<lparr>bandwidth = \<lparr>gb = Fin 9, cost = Fin 0.9\<rparr>, total = Fin 0.9,
            monthly = Fin 27, yearly = Fin 328.5\<rparr> \<and>
   savings_total
     (calculateSavingsByCategory
        [\<lparr>traffic_botName = ''CCBot'', traffic_category = ''ai_scraper'',
          bytesTransferred = Fin 1073741824, requestCount = Fin 10\<rparr>,
         \<lparr>traffic_botName = ''Bytespider'', traffic_category = ''ai_scraper'',
          bytesTransferred = Fin 5368709120, requestCount = Fin 20\<rparr>] ''generic'') =
     Fin 1.08"
proof -
  have mult: "or_default (map_of botCostMultipliers ''ai_scraper'') (Fin 1) = Fin 1.8"
    by (simp add: botCostMultipliers_def or_default_def jtruthy_def)
  have c1: "record_cost ''generic''
        \<lparr>traffic_botName = ''CCBot'', traffic_category = ''ai_scraper'',
          bytesTransferred = Fin 1073741824, requestCount = Fin 10\<rparr> =
     \<lparr>bandwidth = \<lparr>gb = Fin 1.8, cost = Fin 0.18\<rparr>, total = Fin 0.18,
            monthly = Fin 5.4, yearly = Fin 65.7\<rparr>"
    by (simp add: record_cost_def mult generic_cost Let_def)
  have c2: "record_cost ''generic''
        \<lparr>traffic_botName = ''Bytespider'', traffic_category = ''ai_scraper'',
          bytesTransferred = Fin 5368709120, requestCount = Fin 20\<rparr> =
     \<lparr>bandwidth = \<lparr>gb = Fin 9, cost = Fin 0.9\<rparr>, total = Fin 0.9,
            monthly = Fin 27, yearly = Fin 328.5\<rparr>"
    by (simp add: record_cost_def mult generic_cost Let_def)
  from calculateSavingsByCategory_last_wins
     [of "[\<lparr>traffic_botName = ''CCBot'', traffic_category = ''ai_scraper'',
          bytesTransferred = Fin 1073741824, requestCount = Fin 10\<rparr>,
         \<lparr>traffic_botName = ''Bytespider'', traffic_category = ''ai_scraper'',
          bytesTransferred = Fin 5368709120, requestCount = Fin 20\<rparr>]" "''generic''"
         "''ai_scraper''"]
  show ?thesis
    by (simp add: c1 c2)
qed

lemma mset_insert_sorted: "mset (insert_sorted cmp x ys) = add_mset x (mset ys)"
  by (induction ys) simp_all

lemma mset_js_sort: "mset (js_sort cmp xs) = mset xs"
  by (induction xs) (simp_all add: js_sort_def mset_insert_sorted)

lemma js_sort_single: "js_sort cmp [x] = [x]"
  by (simp add: js_sort_def)

lemma recommend_loop_acc:
  "recommend_loop tf provider bs acc =
     acc @ concat (map (\<lambda>b. case recommend tf provider b of Some r \<Rightarrow> [r] | None \<Rightarrow> []) bs)"
  by (induction bs arbitrary: acc) (simp_all split: option.splits)

lemma generateRecommendations_single:
  "generateRecommendations tf [b] provider =
     (case recommend tf provider b of Some r \<Rightarrow> [r] | None \<Rightarrow> [])"
  by (simp add: generateRecommendations_def js_sort_def split: option.splits)

lemma recommend_allow_iff:
  "(\<exists>r. recommend tf provider b = Some r \<and> action r = ''allow'') \<longleftrightarrow>
     traffic_category b = ''search_engine''"
  by (auto simp: recommend_def Let_def split: if_splits)

lemma recommend_search_engine:
  "traffic_category b = ''search_engine'' \<Longrightarrow>
     recommend tf provider b =
       Some \<lparr>action = ''allow'', target = traffic_botName b,
              reason = ''Essential for SEO and organic traffic'',
              savingsPerMonth = Fin 0, rec_confidence = Fin 1\<rparr>"
  by (simp add: recommend_def Let_def)

lemma count_allow:
  "length (filter (\<lambda>r. action r = ''allow'')
       (concat (map (\<lambda>b. case recommend tf provider b of Some r \<Rightarrow> [r] | None \<Rightarrow> []) bs))) =
   length (filter (\<lambda>b. traffic_category b = ''search_engine'') bs)"
proof (induction bs)
  case Nil
  then show ?case by simp
next
  case (Cons b bs)
  show ?case
  proof (cases "traffic_category b = ''search_engine''")
    case True
    with Cons.IH show ?thesis
      by (simp add: recommend_search_engine)
  next
    case False
    with recommend_allow_iff [of tf provider b]
    have "filter (\<lambda>r. action r = ''allow'')
            (case recommend tf provider b of Some r \<Rightarrow> [r] | None \<Rightarrow> []) = []"
      by (auto split: option.splits)
    with False Cons.IH show ?thesis
      by simp
  qed
qed

text \<open>
  Claim C8. The recommendations for a list of records are, up to order, those of each
  record on its own. A record of category \<open>search_engine\<close> gives exactly one
  recommendation: allow, with savings 0 and confidence 1, whatever its cost. As many
  recommendations allow as there are \<open>search_engine\<close> records, so none of those records
  gives a block or a rate limit.
\<close>

theorem generateRecommendations_search_engine:
  "mset (generateRecommendations tf botTraffic provider) =
     mset (concat (map (\<lambda>b. generateRecommendations tf [b] provider) botTraffic)) \<and>
   (\<forall>b \<in> set botTraffic. traffic_category b = ''search_engine'' \<longrightarrow>
      generateRecommendations tf [b] provider =
        [\<lparr>action = ''allow'', target = traffic_botName b,
          reason = ''Essential for SEO and organic traffic'',
          savingsPerMonth = Fin 0, rec_confidence = Fin 1\<rparr>]) \<and>
   length (filter (\<lambda>r. action r = ''allow'') (generateRecommendations tf botTraffic provider)) =
     length (filter (\<lambda>b. traffic_category b = ''search_engine'') botTraffic)"
proof (intro conjI ballI impI)
  show "mset (generateRecommendations tf botTraffic provider) =
     mset (concat (map (\<lambda>b. generateRecommendations tf [b] provider) botTraffic))"
    by (simp add: generateRecommendations_single)
      (simp add: generateRecommendations_def mset_js_sort recommend_loop_acc)
next
  fix b :: BotTraffic
  assume "b \<in> set botTraffic" and "traffic_category b = ''search_engine''"
  then show "generateRecommendations tf [b] provider =
        [\<lparr>action = ''allow'', target = traffic_botName b,
          reason = ''Essential for SEO and organic traffic'',
          savingsPerMonth = Fin 0, rec_confidence = Fin 1\<rparr>]"
    by (simp add: generateRecommendations_single recommend_search_engine)
next
  have "length (filter (\<lambda>r. action r = ''allow'') (generateRecommendations tf botTraffic provider)) =
        size (filter_mset (\<lambda>r. action r = ''allow'') (mset (generateRecommendations tf botTraffic provider)))"
    by (simp only: mset_filter [symmetric] size_mset)
  also have "\<dots> = size (filter_mset (\<lambda>r. action r = ''allow'')
       (mset (concat (map (\<lambda>b. case recommend tf provider b of Some r \<Rightarrow> [r] | None \<Rightarrow> []) botTraffic))))"
    by (simp add: generateRecommendations_def mset_js_sort recommend_loop_acc)
  also have "\<dots> = length (filter (\<lambda>r. action r = ''allow'')
       (concat (map (\<lambda>b. case recommend tf provider b of Some r \<Rightarrow> [r] | None \<Rightarrow> []) botTraffic)))"
    by (simp only: mset_filter [symmetric] size_mset)
  finally show "length (filter (\<lambda>r. action r = ''allow'') (generateRecommendations tf botTraffic provider)) =
     length (filter (\<lambda>b. traffic_category b = ''search_engine'') botTraffic)"
    by (simp add: count_allow)
qed

text \<open>
  A search engine and a scraper, each with 50,000,000,000 bytes at the generic provider:
  the scraper is blocked, the search engine allowed.
\<close>

theorem generateRecommendations_search_engine_witness:
  "generateRecommendations (\<lambda>_. ''139.70'')
     [\<lparr>traffic_botName = ''Googlebot'', traffic_category = ''search_engine'',
       bytesTransferred = Fin 50000000000, requestCount = Fin 1000\<rparr>,
      \<lparr>traffic_botName = ''CCBot'', traffic_category = ''ai_scraper'',
       bytesTransferred = Fin 50000000000, requestCount = Fin 1000\<rparr>] ''generic'' =
     [\<lparr>action = ''block'', target = ''CCBot'',
       reason = ''Aggressive scraper costing $139.70/month with minimal SEO benefit'',
       savingsPerMonth = Fin (146484375 / 1048576), rec_confidence = Fin 0.95\<rparr>,
      \<lparr>action = ''allow'', target = ''Googlebot'',
       reason = ''Essential for SEO and organic traffic'',
       savingsPerMonth = Fin 0, rec_confidence = Fin 1\<rparr>] \<and>
   generateRecommendations (\<lambda>_. ''139.70'')
     [\<lparr>traffic_botName = ''Googlebot'', traffic_category = ''search_engine'',
       bytesTransferred = Fin 50000000000, requestCount = Fin 1000\<rparr>] ''generic'' =
     [\<lparr>action = ''allow'', target = ''Googlebot'',
       reason = ''Essential for SEO and organic traffic'',
       savingsPerMonth = Fin 0, rec_confidence = Fin 1\<rparr>]"
proof -
  define g where "g = \<lparr>traffic_botName = ''Googlebot'', traffic_category = ''search_engine'',
       bytesTransferred = Fin 50000000000, requestCount = Fin 1000\<rparr>"
  define s where "s = \<lparr>traffic_botName = ''CCBot'', traffic_category = ''ai_scraper'',
       bytesTransferred = Fin 50000000000, requestCount = Fin 1000\<rparr>"
  have cat: "traffic_category g = ''search_engine''"
    by (simp add: g_def)
  have rg: "recommend (\<lambda>_. ''139.70'') ''generic'' g =
      Some \<lparr>action = ''allow'', target = ''Googlebot'',
       reason = ''Essential for SEO and organic traffic'',
       savingsPerMonth = Fin 0, rec_confidence = Fin 1\<rparr>"
    by (simp add: recommend_search_engine [OF cat]) (simp add: g_def)
  have rs: "recommend (\<lambda>_. ''139.70'') ''generic'' s =
      Some \<lparr>action = ''block'', target = ''CCBot'',
       reason = ''Aggressive scraper costing $139.70/month with minimal SEO benefit'',
       savingsPerMonth = Fin (146484375 / 1048576), rec_confidence = Fin 0.95\<rparr>"
    by (simp add: recommend_def generic_cost s_def Let_def jgt_def)
  have both: "generateRecommendations (\<lambda>_. ''139.70'') [g, s] ''generic'' =
     [\<lparr>action = ''block'', target = ''CCBot'',
       reason = ''Aggressive scraper costing $139.70/month with minimal SEO benefit'',
       savingsPerMonth = Fin (146484375 / 1048576), rec_confidence = Fin 0.95\<rparr>,
      \<lparr>action = ''allow'', target = ''Googlebot'',
       reason = ''Essential for SEO and organic traffic'',
       savingsPerMonth = Fin 0, rec_confidence = Fin 1\<rparr>]"
    by (simp add: generateRecommendations_def rg rs js_sort_def jgt_def jsub_def)
  from generateRecommendations_search_engine [of "\<lambda>_. ''139.70''" "[g, s]" "''generic''"] cat
  have "generateRecommendations (\<lambda>_. ''139.70'') [g] ''generic'' =
     [\<lparr>action = ''allow'', target = ''Googlebot'',
       reason = ''Essential for SEO and organic traffic'',
       savingsPerMonth = Fin 0, rec_confidence = Fin 1\<rparr>]"
    by (simp add: g_def)
  with both show ?thesis
    unfolding g_def s_def by simp
qed

section \<open>Rounding to a double\<close>

text \<open>
  The bisection of \<open>binade\<close> finds the exponent: for a magnitude in the range of the
  normal doubles it is the \<open>e\<close> with \<open>2\<^sup>e \<le> m < 2\<^sup>e\<^sup>+\<^sup>1\<close>.
\<close>

lemma pow2_powr: "pow2 e = 2 powr (of_int e)"
  by (simp add: pow2_def powr_int)

lemma pow2_pos: "0 < pow2 e"
  by (simp add: pow2_powr)

lemma pow2_le_iff: "pow2 a \<le> pow2 b \<longleftrightarrow> a \<le> b"
  by (simp add: pow2_powr)

lemma pow2_less_iff: "pow2 a < pow2 b \<longleftrightarrow> a < b"
  by (simp add: pow2_powr)

lemma exponent_search_range:
  "lo \<le> hi \<Longrightarrow> lo \<le> exponent_search n lo hi m \<and> exponent_search n lo hi m \<le> hi"
proof (induction n arbitrary: lo hi)
  case 0
  then show ?case by simp
next
  case (Suc n)
  show ?case
  proof (cases "hi \<le> lo")
    case True
    with Suc.prems show ?thesis by simp
  next
    case False
    define mid where "mid = (lo + hi + 1) div 2"
    from False have mid: "lo < mid" "mid \<le> hi"
      by (simp_all add: mid_def)
    show ?thesis
    proof (cases "pow2 mid \<le> m")
      case True
      with Suc.IH [of mid hi] mid False show ?thesis
        by (simp add: Let_def mid_def [symmetric])
    next
      case nle: False
      with Suc.IH [of lo "mid - 1"] mid False show ?thesis
        by (simp add: Let_def mid_def [symmetric])
    qed
  qed
qed

lemma exponent_search_correct:
  "lo \<le> hi \<Longrightarrow> hi - lo < 2 ^ n \<Longrightarrow> pow2 lo \<le> m \<Longrightarrow> m < pow2 (hi + 1) \<Longrightarrow>
     pow2 (exponent_search n lo hi m) \<le> m \<and> m < pow2 (exponent_search n lo hi m + 1)"
proof (induction n arbitrary: lo hi)
  case 0
  then have "hi = lo" by simp
  with 0 show ?case by simp
next
  case (Suc n)
  show ?case
  proof (cases "hi \<le> lo")
    case True
    with Suc.prems have "hi = lo" by simp
    with Suc.prems show ?thesis by simp
  next
    case False
    define mid where "mid = (lo + hi + 1) div 2"
    from False have mid: "lo < mid" "mid \<le> hi"
      by (simp_all add: mid_def)
    from Suc.prems(2) have up: "hi - mid < 2 ^ n" and down: "mid - 1 - lo < 2 ^ n"
      by (simp_all add: mid_def)
    show ?thesis
    proof (cases "pow2 mid \<le> m")
      case True
      with Suc.IH [of mid hi, OF mid(2) up True Suc.prems(4)] False show ?thesis
        by (simp add: Let_def mid_def [symmetric])
    next
      case nle: False
      then have "m < pow2 (mid - 1 + 1)" by simp
      with Suc.IH [of lo "mid - 1", OF _ down Suc.prems(3)] mid False nle show ?thesis
        by (simp add: Let_def mid_def [symmetric])
    qed
  qed
qed

lemma binade_eqI:
  assumes "pow2 e \<le> m" "m < pow2 (e + 1)" "- 1022 \<le> e" "e \<le> 1023"
  shows "binade m = e"
proof -
  have lo: "pow2 (- 1022) \<le> m"
    using assms(1,3) pow2_le_iff [of "- 1022" e] by linarith
  have hi: "m < pow2 (1023 + 1)"
    using assms(2,4) pow2_le_iff [of "e + 1" "1023 + 1"] by linarith
  have "pow2 (binade m) \<le> m \<and> m < pow2 (binade m + 1)"
    unfolding binade_def by (rule exponent_search_correct [OF _ _ lo hi]) simp_all
  then have "pow2 (binade m) < pow2 (e + 1)" "pow2 e < pow2 (binade m + 1)"
    using assms(1,2) by linarith+
  then show ?thesis
    by (simp add: pow2_less_iff)
qed

lemma exponent_search_below:
  "m < pow2 (lo + 1) \<Longrightarrow> exponent_search n lo hi m = lo"
proof (induction n arbitrary: hi)
  case 0
  then show ?case by simp
next
  case (Suc n)
  show ?case
  proof (cases "hi \<le> lo")
    case True
    then show ?thesis by simp
  next
    case False
    then have "lo + 1 \<le> (lo + hi + 1) div 2" by simp
    then have "pow2 (lo + 1) \<le> pow2 ((lo + hi + 1) div 2)"
      by (simp add: pow2_le_iff)
    with Suc.prems have "\<not> pow2 ((lo + hi + 1) div 2) \<le> m" by simp
    with Suc.IH [OF Suc.prems] False show ?thesis
      by (simp add: Let_def)
  qed
qed

lemma binade_subnormal: "m < pow2 (- 1021) \<Longrightarrow> binade m = - 1022"
  unfolding binade_def by (rule exponent_search_below) simp

lemma binade_range: "- 1022 \<le> binade m \<and> binade m \<le> 1023"
  unfolding binade_def using exponent_search_range [of "- 1022" 1023 11 m] by simp

lemma exponent_search_above:
  "lo \<le> hi \<Longrightarrow> pow2 hi \<le> m \<Longrightarrow> hi - lo < 2 ^ n \<Longrightarrow> exponent_search n lo hi m = hi"
proof (induction n arbitrary: lo)
  case 0
  then show ?case by simp
next
  case (Suc n)
  show ?case
  proof (cases "hi \<le> lo")
    case True
    with Suc.prems show ?thesis by simp
  next
    case False
    define mid where "mid = (lo + hi + 1) div 2"
    from False have mid: "mid \<le> hi"
      by (simp add: mid_def)
    then have "pow2 mid \<le> pow2 hi"
      by (simp add: pow2_le_iff)
    with Suc.prems(2) have le: "pow2 mid \<le> m" by simp
    from Suc.prems(3) have "hi - mid < 2 ^ n"
      by (simp add: mid_def)
    from Suc.IH [OF mid Suc.prems(2) this] le False show ?thesis
      by (simp add: Let_def mid_def [symmetric])
  qed
qed

lemma binade_overflow: "pow2 1023 \<le> m \<Longrightarrow> binade m = 1023"
  unfolding binade_def by (rule exponent_search_above) simp_all

lemma binade_bounds:
  assumes "pow2 (- 1022) \<le> m" "m < pow2 1024"
  shows "pow2 (binade m) \<le> m \<and> m < pow2 (binade m + 1)"
  unfolding binade_def using assms by (intro exponent_search_correct) simp_all

lemma binade_ge:
  assumes "pow2 e \<le> m" "- 1022 \<le> e" "e \<le> 1023"
  shows "e \<le> binade m"
proof (cases "m < pow2 1024")
  case True
  from assms(1,2) have "pow2 (- 1022) \<le> m"
    using pow2_le_iff [of "- 1022" e] by linarith
  from binade_bounds [OF this True] assms(1) have "pow2 e < pow2 (binade m + 1)"
    by linarith
  then show ?thesis
    by (simp add: pow2_less_iff)
next
  case False
  then have "pow2 1023 \<le> m"
    using pow2_le_iff [of 1023 1024] by linarith
  with assms(3) show ?thesis
    by (simp add: binade_overflow)
qed

text \<open>
  So a rounding is computed from the exponent of its argument.
\<close>

lemma round_dbl_eval:
  assumes "pow2 e \<le> m" "m < pow2 (e + 1)" "- 1022 \<le> e" "e \<le> 1023"
  shows "round_dbl s m =
           (if pow2 1024 \<le> of_int (round_half_even (m / pow2 (e - 52))) * pow2 (e - 52)
            then DInf s
            else DNum s (of_int (round_half_even (m / pow2 (e - 52))) * pow2 (e - 52)))"
  by (simp add: round_dbl_def binade_eqI [OF assms] Let_def)

lemma round_dbl_zero [simp]: "round_dbl s 0 = DNum s 0"
proof -
  have "binade 0 = - 1022"
    by (rule binade_subnormal) (simp add: pow2_pos)
  then show ?thesis
    by (simp add: round_dbl_def Let_def round_half_even_def not_le pow2_pos)
qed

lemma round_half_even_of_int [simp]: "round_half_even (of_int k) = k"
  by (simp add: round_half_even_def)

lemma round_half_even_ge: "of_int k \<le> x \<Longrightarrow> k \<le> round_half_even x"
proof -
  assume "of_int k \<le> x"
  then have "k \<le> \<lfloor>x\<rfloor>"
    by (simp add: le_floor_iff)
  then show ?thesis
    by (simp add: round_half_even_def Let_def)
qed

text \<open>
  Rounding keeps an integer below \<open>2\<^sup>5\<^sup>3\<close>, takes every integer to an integer or to
  an infinity, and takes a magnitude of \<open>2\<^sup>1\<^sup>0\<^sup>2\<^sup>4\<close> or more to an infinity.
\<close>

lemma round_dbl_int:
  assumes "0 \<le> n" "n < 2 ^ 53"
  shows "round_dbl s (of_int n) = DNum s (of_int n)"
proof (cases "n = 0")
  case True
  then show ?thesis by simp
next
  case False
  define m :: real where "m = of_int n"
  define e where "e = binade m"
  from assms False have "1 \<le> n" by simp
  then have "1 \<le> m"
    unfolding m_def by simp
  moreover have "pow2 (- 1022) \<le> pow2 0"
    by (simp add: pow2_le_iff)
  ultimately have lo: "pow2 (- 1022) \<le> m"
    by (simp add: pow2_def)
  from assms(2) have "m < 2 ^ 53"
    unfolding m_def by (metis of_int_less_iff of_int_numeral of_int_power)
  then have m53: "m < pow2 53"
    by (simp add: pow2_def)
  moreover have "pow2 53 < pow2 1024"
    by (simp add: pow2_less_iff)
  ultimately have hi: "m < pow2 1024"
    by linarith
  from binade_bounds [OF lo hi] m53 have "pow2 e < pow2 53"
    unfolding e_def by linarith
  then have e: "e \<le> 52"
    by (simp add: pow2_less_iff)
  define k where "k = nat (52 - e)"
  from e have ulp: "pow2 (e - 52) = 1 / 2 ^ k"
    by (auto simp: pow2_def k_def)
  have q: "m / pow2 (e - 52) = of_int (n * 2 ^ k)"
    by (simp add: ulp m_def)
  have "round_half_even (m / pow2 (e - 52)) = n * 2 ^ k"
    unfolding q by (rule round_half_even_of_int)
  then have "of_int (round_half_even (m / pow2 (e - 52))) * pow2 (e - 52) = m"
    by (simp add: ulp m_def)
  with hi show ?thesis
    by (simp add: round_dbl_def Let_def e_def [symmetric] m_def [symmetric] not_le)
qed

lemma round_dbl_overflow:
  assumes "pow2 1024 \<le> m"
  shows "round_dbl s m = DInf s"
proof -
  have "pow2 1023 \<le> pow2 1024"
    by (simp add: pow2_le_iff)
  with assms have e: "binade m = 1023"
    by (intro binade_overflow) linarith
  have "pow2 1024 = of_int (2 ^ 53) * pow2 971"
    by (simp add: pow2_def)
  with assms have "of_int (2 ^ 53) \<le> m / pow2 971"
    using pow2_pos [of 971] by (simp add: pos_le_divide_eq)
  then have "2 ^ 53 \<le> round_half_even (m / pow2 971)"
    by (rule round_half_even_ge)
  then have "of_int (2 ^ 53) * pow2 971 \<le> of_int (round_half_even (m / pow2 971)) * pow2 971"
    using pow2_pos [of 971] by (simp only: mult_le_cancel_right_pos of_int_le_iff)
  with \<open>pow2 1024 = of_int (2 ^ 53) * pow2 971\<close> show ?thesis
    by (simp add: round_dbl_def Let_def e)
qed

lemma round_dbl_of_int:
  assumes "0 \<le> n"
  shows "(\<exists>k. 0 \<le> k \<and> round_dbl s (of_int n) = DNum s (of_int k)) \<or>
         round_dbl s (of_int n) = DInf s"
proof (cases "n < 2 ^ 53")
  case True
  with assms show ?thesis
    by (auto simp: round_dbl_int)
next
  case False
  define m :: real where "m = of_int n"
  define e where "e = binade m"
  from False have "2 ^ 53 \<le> n" by simp
  then have "2 ^ 53 \<le> m"
    unfolding m_def by (metis of_int_le_iff of_int_numeral of_int_power)
  then have "pow2 53 \<le> m"
    by (simp add: pow2_def)
  then have e: "53 \<le> e"
    unfolding e_def by (intro binade_ge) simp_all
  define k where "k = nat (e - 52)"
  from e have ulp: "pow2 (e - 52) = of_int (2 ^ k)"
    by (simp add: pow2_def k_def)
  define r where "r = round_half_even (m / pow2 (e - 52))"
  have "0 \<le> m / pow2 (e - 52)"
    using assms pow2_pos [of "e - 52"] by (simp add: m_def)
  then have r: "0 \<le> r"
    unfolding r_def using round_half_even_ge [of 0] by simp
  have "of_int r * pow2 (e - 52) = of_int (r * 2 ^ k)"
    by (simp add: ulp)
  moreover from r have "0 \<le> r * 2 ^ k" by simp
  ultimately show ?thesis
    unfolding round_dbl_def Let_def m_def [symmetric] e_def [symmetric] r_def [symmetric]
    by auto
qed

section \<open>calculateROI\<close>

text \<open>
  The definitions the evaluations below unfold.
\<close>

lemmas dbl_simps =
  lit_def dsub_def dgt_def dle_def dmin_def dmax_def dtruthy_def is_zero_def is_negative_def
  signed_def or_default_dbl_def pow2_def round_half_even_def Let_def

text \<open>
  The daily cost of 6 GiB on the tiered \<open>aws\<close> table: one free gigabyte, and five at
  0.09, where the product of the doubles is 0.44999999999999996, not 0.45.
\<close>

lemma aws_6GiB:
  "calculateBandwidthCost_dbl (pos 6442450944) ''aws'' =
     \<lparr>bandwidth_dbl = \<lparr>gb_dbl = pos 6, cost_dbl = pos (2026619832316723 / 4503599627370496)\<rparr>,
      total_dbl = pos (2026619832316723 / 4503599627370496),
      monthly_dbl = pos (7599824371187711 / 562949953421312),
      yearly_dbl = pos (5779033115590655 / 35184372088832)\<rparr>"
  by (simp add: calculateBandwidthCost_dbl_def get_provider_def providers_def
      calculateTieredCost_dbl_def dbl_simps
      round_dbl_eval [where e = 0] round_dbl_eval [where e = 2] round_dbl_eval [where e = 3]
      round_dbl_eval [where e = "- 4"] round_dbl_eval [where e = "- 2"]
      round_dbl_eval [where e = 7])

text \<open>
  Claim C9. The numbers are doubles and the operations those of the code, each rounding
  to the nearest double: with an implementation cost above zero, \<open>breakEvenDays\<close> is
  \<open>Math.ceil\<close> of the quotient of the implementation cost by the daily cost and \<open>roi\<close>
  is the yearly savings less the implementation cost, divided by the implementation
  cost, times 100; with an implementation cost of zero (also when the argument is left
  out), \<open>breakEvenDays\<close> is 0 and \<open>roi\<close> is \<open>Infinity\<close>. The daily cost is the \<open>total\<close>
  and the yearly savings the \<open>yearly\<close> of \<open>calculateBandwidthCost\<close> for the byte count and
  the provider.
\<close>

theorem calculateROI_formulas:
  "(dgt c (pos 0) \<longrightarrow>
      breakEvenDays (calculateROI dailyBytes provider (Some c)) =
        dceil (ddiv c (total_dbl (calculateBandwidthCost_dbl dailyBytes provider))) \<and>
      roi (calculateROI dailyBytes provider (Some c)) =
        dmul (ddiv (dsub (yearlySavings (calculateROI dailyBytes provider (Some c))) c) c)
             (pos 100)) \<and>
   (is_zero c \<longrightarrow>
      breakEvenDays (calculateROI dailyBytes provider (Some c)) = pos 0 \<and>
      roi (calculateROI dailyBytes provider (Some c)) = DInf False) \<and>
   calculateROI dailyBytes provider None = calculateROI dailyBytes provider (Some (pos 0)) \<and>
   yearlySavings (calculateROI dailyBytes provider (Some c)) =
     yearly_dbl (calculateBandwidthCost_dbl dailyBytes provider)"
proof -
  have "is_zero c \<Longrightarrow> \<not> dgt c (pos 0)"
    by (cases c) (simp_all add: is_zero_def dgt_def signed_def)
  then show ?thesis
    by (auto simp: calculateROI_def Let_def)
qed

text \<open>
  At 6 GiB a day on \<open>aws\<close> and an implementation cost of 9 the quotient is
  20.000000000000004 and \<open>breakEvenDays\<close> is 21; \<open>roi\<close> is 1724.9999999999995.
\<close>

theorem calculateROI_formulas_witness:
  "dgt (pos 9) (pos 0) \<and>
   total_dbl (calculateBandwidthCost_dbl (pos 6442450944) ''aws'') =
     pos (2026619832316723 / 4503599627370496) \<and>
   ddiv (pos 9) (pos (2026619832316723 / 4503599627370496)) =
     pos (5629499534213121 / 281474976710656) \<and>
   breakEvenDays (calculateROI (pos 6442450944) ''aws'' (Some (pos 9))) = pos 21 \<and>
   roi (calculateROI (pos 6442450944) ''aws'' (Some (pos 9))) =
     pos (3793315115827199 / 2199023255552) \<and>
   is_zero (pos 0) \<and>
   breakEvenDays (calculateROI (pos 6442450944) ''aws'' (Some (pos 0))) = pos 0 \<and>
   roi (calculateROI (pos 6442450944) ''aws'' (Some (pos 0))) = DInf False"
proof -
  have gt: "dgt (pos 9) (pos 0)"
    by (simp add: dgt_def signed_def)
  have zero: "is_zero (pos 0)"
    by (simp add: is_zero_def)
  have quotient: "ddiv (pos 9) (pos (2026619832316723 / 4503599627370496)) =
      pos (5629499534213121 / 281474976710656)"
    by (simp add: dbl_simps round_dbl_eval [where e = 4])
  have ceil: "dceil (pos (5629499534213121 / 281474976710656)) = pos 21"
    by (simp add: signed_def ceiling_eq_iff)
  have ratio: "dmul (ddiv (dsub (pos (5779033115590655 / 35184372088832)) (pos 9)) (pos 9))
                 (pos 100) = pos (3793315115827199 / 2199023255552)"
    by (simp add: dbl_simps round_dbl_eval [where e = 4] round_dbl_eval [where e = 7]
        round_dbl_eval [where e = 10])
  from calculateROI_formulas [of "pos 9" "pos 6442450944" "''aws''"]
       calculateROI_formulas [of "pos 0" "pos 6442450944" "''aws''"] gt zero
  show ?thesis
    by (simp add: aws_6GiB quotient ceil ratio del: ddiv.simps dmul.simps dceil.simps)
qed

text \<open>
  The quotient is the rounded one. At 1 GiB a day on \<open>cloudflare\<close> the daily cost is the
  double of 0.045, which is a little less than 0.045: the quotient of 9 by it is a little
  more than 200, rounds to 200, and \<open>breakEvenDays\<close> is 200, where the ceiling of the
  quotient before rounding is 201.
\<close>

lemma cloudflare_1GiB:
  "total_dbl (calculateBandwidthCost_dbl (pos 1073741824) ''cloudflare'') =
     pos (3242591731706757 / 72057594037927936) \<and>
   breakEvenDays (calculateROI (pos 1073741824) ''cloudflare'' (Some (pos 9))) = pos 200 \<and>
   \<lceil>9 / (3242591731706757 / 72057594037927936) :: real\<rceil> = 201"
  by (simp add: calculateROI_def calculateBandwidthCost_dbl_def get_provider_def providers_def
      dbl_simps ceiling_eq_iff
      round_dbl_eval [where e = 0] round_dbl_eval [where e = "- 5"] round_dbl_eval [where e = 7]
      round_dbl_eval [where e = 4] round_dbl_eval [where e = 1] round_dbl_eval [where e = 10])

text \<open>
  A daily cost of zero gives a break-even time of \<open>Infinity\<close> (as no traffic does, and
  traffic within the free allowance of a provider).
\<close>

lemma calculateROI_zero_daily_cost:
  assumes "total_dbl (calculateBandwidthCost_dbl dailyBytes provider) = DNum s 0"
      and "0 < c"
  shows "breakEvenDays (calculateROI dailyBytes provider (Some (pos c))) = DInf s"
  using assms by (simp add: calculateROI_def Let_def dgt_def signed_def)

lemma calculateROI_no_traffic:
  "breakEvenDays (calculateROI (pos 0) ''cloudflare'' (Some (pos 9))) = DInf False"
  by (simp add: calculateROI_def calculateBandwidthCost_dbl_def get_provider_def providers_def
      dbl_simps round_dbl_eval [where e = "- 5"])

section \<open>Properties of the robots policy and the log parser\<close>

lemma blocked_loop_concat:
  "blocked_loop bs content =
     content @ concat (map (\<lambda>b. ''User-agent: '' @ b @ ''\<newline>Disallow: /\<newline>\<newline>'') bs)"
  by (induction bs arbitrary: content) simp_all

lemma rate_limited_loop_concat:
  "rate_limited_loop numberToString rs content =
     content @ concat (map (\<lambda>(b, delay). ''User-agent: '' @ b @ ''\<newline>Crawl-delay: '' @
                              numberToString delay @ ''\<newline>Allow: /\<newline>\<newline>'') rs)"
  by (induction rs arbitrary: content) auto

lemma generateRobotsTxt_text:
  "generateRobotsTxt now numberToString blockedBots rateLimitedBots =
     ''# AI Crawler Monitor - Generated robots.txt\<newline># Generated: '' @ now @
     ''\<newline>\<newline># Search Engines (Allowed)\<newline>User-agent: Googlebot\<newline>Allow: /\<newline>\<newline>User-agent: bingbot\<newline>Allow: /\<newline>\<newline>'' @
     (if blockedBots = [] then []
      else ''# Blocked Bots\<newline>'' @
           concat (map (\<lambda>b. ''User-agent: '' @ b @ ''\<newline>Disallow: /\<newline>\<newline>'') blockedBots)) @
     (if rateLimitedBots = [] then []
      else ''# Rate Limited Bots\<newline>'' @
           concat (map (\<lambda>(b, delay). ''User-agent: '' @ b @ ''\<newline>Crawl-delay: '' @
                                    numberToString delay @ ''\<newline>Allow: /\<newline>\<newline>'')
                       rateLimitedBots)) @
     ''# Default\<newline>User-agent: *\<newline>Allow: /\<newline>Sitemap: /sitemap.xml\<newline>''"
  by (simp add: generateRobotsTxt_def Let_def blocked_loop_concat rate_limited_loop_concat)

text \<open>
  Claim C4, as amended. The text is the title comment, the line \<open># Generated:\<close> with
  the clock reading of the call, the allow rules of the two search engines, then (when
  there is one) a disallow block for each blocked bot in the order of the list, then (when
  there is one) a crawl-delay block for each rate-limited bot in the order of the map's
  entries, then the default allow-all with the sitemap. Two calls with the same
  arguments return the same text exactly when they read the same clock value.
\<close>

theorem generateRobotsTxt_structure:
  "generateRobotsTxt now numberToString blockedBots rateLimitedBots =
     ''# AI Crawler Monitor - Generated robots.txt\<newline># Generated: '' @ now @
     ''\<newline>\<newline># Search Engines (Allowed)\<newline>User-agent: Googlebot\<newline>Allow: /\<newline>\<newline>User-agent: bingbot\<newline>Allow: /\<newline>\<newline>'' @
     (if blockedBots = [] then []
      else ''# Blocked Bots\<newline>'' @
           concat (map (\<lambda>b. ''User-agent: '' @ b @ ''\<newline>Disallow: /\<newline>\<newline>'') blockedBots)) @
     (if rateLimitedBots = [] then []
      else ''# Rate Limited Bots\<newline>'' @
           concat (map (\<lambda>(b, delay). ''User-agent: '' @ b @ ''\<newline>Crawl-delay: '' @
                                    numberToString delay @ ''\<newline>Allow: /\<newline>\<newline>'')
                       rateLimitedBots)) @
     ''# Default\<newline>User-agent: *\<newline>Allow: /\<newline>Sitemap: /sitemap.xml\<newline>'' \<and>
   (generateRobotsTxt now numberToString blockedBots rateLimitedBots =
      generateRobotsTxt now' numberToString blockedBots rateLimitedBots
    \<longleftrightarrow> now = now')"
proof
  show "generateRobotsTxt now numberToString blockedBots rateLimitedBots =
     ''# AI Crawler Monitor - Generated robots.txt\<newline># Generated: '' @ now @
     ''\<newline>\<newline># Search Engines (Allowed)\<newline>User-agent: Googlebot\<newline>Allow: /\<newline>\<newline>User-agent: bingbot\<newline>Allow: /\<newline>\<newline>'' @
     (if blockedBots = [] then []
      else ''# Blocked Bots\<newline>'' @
           concat (map (\<lambda>b. ''User-agent: '' @ b @ ''\<newline>Disallow: /\<newline>\<newline>'') blockedBots)) @
     (if rateLimitedBots = [] then []
      else ''# Rate Limited Bots\<newline>'' @
           concat (map (\<lambda>(b, delay). ''User-agent: '' @ b @ ''\<newline>Crawl-delay: '' @
                                    numberToString delay @ ''\<newline>Allow: /\<newline>\<newline>'')
                       rateLimitedBots)) @
     ''# Default\<newline>User-agent: *\<newline>Allow: /\<newline>Sitemap: /sitemap.xml\<newline>''"
    by (rule generateRobotsTxt_text)
next
  obtain pre post where
    shape: "\<And>t. generateRobotsTxt t numberToString blockedBots rateLimitedBots = pre @ t @ post"
    using generateRobotsTxt_text [of _ numberToString blockedBots rateLimitedBots] by blast
  show "generateRobotsTxt now numberToString blockedBots rateLimitedBots =
      generateRobotsTxt now' numberToString blockedBots rateLimitedBots
    \<longleftrightarrow> now = now'"
  proof
    assume "generateRobotsTxt now numberToString blockedBots rateLimitedBots =
      generateRobotsTxt now' numberToString blockedBots rateLimitedBots"
    then have "now @ post = now' @ post"
      by (simp add: shape)
    then show "now = now'"
      by simp
  next
    assume "now = now'"
    then show "generateRobotsTxt now numberToString blockedBots rateLimitedBots =
      generateRobotsTxt now' numberToString blockedBots rateLimitedBots"
      by simp
  qed
qed

text \<open>
  Claim C4 as stated fails: two calls with the same arguments, one second apart, return
  different texts.
\<close>

theorem generateRobotsTxt_clock_counterexample:
  "generateRobotsTxt ''2024-10-10T13:55:36.000Z'' decimal [''CCBot''] [(''GPTBot'', 10)] \<noteq>
   generateRobotsTxt ''2024-10-10T13:55:37.000Z'' decimal [''CCBot''] [(''GPTBot'', 10)]"
  by (simp add: generateRobotsTxt_text)

text \<open>
  The whole text for one blocked bot and one rate-limited bot with an integer delay.
\<close>

lemma generateRobotsTxt_example:
  "generateRobotsTxt ''2024-10-10T13:55:36.000Z'' decimal [''CCBot''] [(''GPTBot'', 10)] =
   ''# AI Crawler Monitor - Generated robots.txt\<newline># Generated: 2024-10-10T13:55:36.000Z\<newline>\<newline># Search Engines (Allowed)\<newline>User-agent: Googlebot\<newline>Allow: /\<newline>\<newline>User-agent: bingbot\<newline>Allow: /\<newline>\<newline># Blocked Bots\<newline>User-agent: CCBot\<newline>Disallow: /\<newline>\<newline># Rate Limited Bots\<newline>User-agent: GPTBot\<newline>Crawl-delay: 10\<newline>Allow: /\<newline>\<newline># Default\<newline>User-agent: *\<newline>Allow: /\<newline>Sitemap: /sitemap.xml\<newline>''"
  by code_simp

text \<open>
  Claim C3 fails on the code: \<open>parseCommonLog\<close> on one accepted line returns entries
  that differ in \<open>responseTime\<close>, 50 when \<open>Math.random()\<close> returns 0.1 and 450 when it
  returns 0.9.
\<close>

theorem parseCommonLog_random_responseTime:
  "parseCommonLog (1 / 10)
     ''127.0.0.1 - - [10/Oct/2024:13:55:36 -0700] \"GET /api/data HTTP/1.1\" 200 2326 \"-\" \"Mozilla/5.0\"'' =
     Some \<lparr>timestamp = NewDate (JStr ''10/Oct/2024:13:55:36 -0700''),
            ip = JStr ''127.0.0.1'', http_method = JStr ''GET'', path = JStr ''/api/data'',
            status = JNum (Fin 200), bytes = JNum (Fin 2326),
            userAgent = JStr ''Mozilla/5.0'', responseTime = JNum (Fin 50)\<rparr> \<and>
   parseCommonLog (9 / 10)
     ''127.0.0.1 - - [10/Oct/2024:13:55:36 -0700] \"GET /api/data HTTP/1.1\" 200 2326 \"-\" \"Mozilla/5.0\"'' =
     Some \<lparr>timestamp = NewDate (JStr ''10/Oct/2024:13:55:36 -0700''),
            ip = JStr ''127.0.0.1'', http_method = JStr ''GET'', path = JStr ''/api/data'',
            status = JNum (Fin 200), bytes = JNum (Fin 2326),
            userAgent = JStr ''Mozilla/5.0'', responseTime = JNum (Fin 450)\<rparr>"
proof -
  have captures: "rx_match_start False commonLogPattern
      ''127.0.0.1 - - [10/Oct/2024:13:55:36 -0700] \"GET /api/data HTTP/1.1\" 200 2326 \"-\" \"Mozilla/5.0\"'' =
      Some [''127.0.0.1'', ''10/Oct/2024:13:55:36 -0700'', ''GET'', ''/api/data'', ''200'',
            ''2326'', ''Mozilla/5.0'']"
    by code_simp
  have "takeWhile digit ''200'' = ''200''" "digits_value ''200'' = 200"
    by code_simp+
  with round_dbl_int [of 200 False] have status: "parseInt ''200'' = Fin 200"
    by (simp add: parseInt_def signed_def)
  have "takeWhile digit ''2326'' = ''2326''" "digits_value ''2326'' = 2326"
    by code_simp+
  with round_dbl_int [of 2326 False] have bytes: "parseInt ''2326'' = Fin 2326"
    by (simp add: parseInt_def signed_def)
  show ?thesis
    by (simp add: parseCommonLog_def captures status bytes)
qed

lemma parseCommonLog_rejects_braces: "parseCommonLog random ''{}'' = None"
  by (simp add: parseCommonLog_def rx_match_start_def commonLogPattern_def nonspace_def
      whitespace_def ch_eq_def)

lemma runs_sound:
  "(t, r) \<in> set (runs p s) \<Longrightarrow> t \<noteq> [] \<and> list_all p t"
  by (induction s arbitrary: t r) (auto split: if_splits)

lemma rx_run_Seq_iff:
  "x \<in> set (rx_run i (Seq a b) s caps) \<longleftrightarrow>
     (\<exists>t1 r1 c1 t2 r2 c2. (t1, r1, c1) \<in> set (rx_run i a s caps) \<and>
        (t2, r2, c2) \<in> set (rx_run i b r1 c1) \<and> x = (t1 @ t2, r2, c2))"
  by force

lemma rx_run_Lit_caps: "(t, r, c) \<in> set (rx_run i (Lit w) s caps) \<Longrightarrow> c = caps"
  by (auto split: option.splits)

lemma rx_run_Eol_caps: "(t, r, c) \<in> set (rx_run i Eol s caps) \<Longrightarrow> c = caps"
  by (auto split: if_splits)

lemma rx_run_Plus_caps: "(t, r, c) \<in> set (rx_run i (Plus p) s caps) \<Longrightarrow> c = caps"
  by auto

lemma rx_run_Star_caps: "(t, r, c) \<in> set (rx_run i (Star p) s caps) \<Longrightarrow> c = caps"
  by auto

lemma rx_run_Grp_Plus:
  "(t, r, c) \<in> set (rx_run i (Grp (Plus p)) s caps) \<Longrightarrow>
     c = caps @ [t] \<and> t \<noteq> [] \<and> list_all p t"
  by (auto dest: runs_sound)

lemma rx_run_Grp_Star:
  "(t, r, c) \<in> set (rx_run i (Grp (Star p)) s caps) \<Longrightarrow> c = caps @ [t]"
  by auto

text \<open>
  Every match of the common-log pattern has seven captures, the fifth and the sixth of
  them digits and not empty.
\<close>

lemma commonLogPattern_captures:
  assumes "(t, r, c) \<in> set (rx_run False commonLogPattern line [])"
  shows "\<exists>m1 m2 m3 m4 m5 m6 m7. c = [m1, m2, m3, m4, m5, m6, m7] \<and>
           m5 \<noteq> [] \<and> list_all digit m5 \<and> m6 \<noteq> [] \<and> list_all digit m6"
  using assms unfolding commonLogPattern_def seqs.simps
  apply (simp only: rx_run_Seq_iff)
  apply (elim exE conjE)
  apply (drule rx_run_Lit_caps rx_run_Eol_caps rx_run_Plus_caps rx_run_Star_caps
      rx_run_Grp_Plus rx_run_Grp_Star)+
  apply simp
  done

lemma digit_value_range: "digit c \<Longrightarrow> 0 \<le> digit_value c \<and> digit_value c \<le> 9"
  by (auto simp: digit_def digit_value_def)

lemma foldl_digits_nonneg:
  "list_all digit s \<Longrightarrow> 0 \<le> acc \<Longrightarrow> 0 \<le> foldl (\<lambda>n c. 10 * n + digit_value c) acc s"
proof (induction s arbitrary: acc)
  case Nil
  then show ?case by simp
next
  case (Cons c s)
  from Cons.prems have "0 \<le> 10 * acc + digit_value c"
    using digit_value_range [of c] by simp
  with Cons show ?case by simp
qed

lemma digits_value_nonneg: "list_all digit s \<Longrightarrow> 0 \<le> digits_value s"
  unfolding digits_value_def by (rule foldl_digits_nonneg) simp_all

lemma parseInt_rounds:
  assumes "s \<noteq> []" "list_all digit s"
  shows "parseInt s = to_jsnum (round_dbl False (of_int (digits_value s)))"
proof -
  from assms(2) have "takeWhile digit s = s"
    by (simp add: takeWhile_eq_all_conv list_all_iff)
  with assms(1) show ?thesis
    by (cases s) (simp_all add: parseInt_def)
qed

text \<open>
  \<open>parseInt\<close> of digits is their number while that is below \<open>2\<^sup>5\<^sup>3\<close>, and an integer that
  is not negative or \<open>Infinity\<close> in every case.
\<close>

lemma parseInt_exact:
  assumes "s \<noteq> []" "list_all digit s" "digits_value s < 2 ^ 53"
  shows "parseInt s = Fin (of_int (digits_value s))"
  using assms round_dbl_int [of "digits_value s" False]
  by (simp add: parseInt_rounds digits_value_nonneg signed_def)

lemma parseInt_digits:
  assumes "s \<noteq> []" "list_all digit s"
  shows "(\<exists>n. parseInt s = Fin (of_int n) \<and> 0 \<le> n) \<or> parseInt s = PInf"
  using round_dbl_of_int [of "digits_value s" False] assms
  by (auto simp: parseInt_rounds digits_value_nonneg signed_def)

text \<open>
  The integer \<open>2\<^sup>5\<^sup>3 + 1\<close> is not a double: \<open>parseInt\<close> gives \<open>2\<^sup>5\<^sup>3\<close>. A one with 309
  zeros is beyond the doubles: \<open>parseInt\<close> gives \<open>Infinity\<close>.
\<close>

lemma parseInt_rounding: "parseInt ''9007199254740993'' = Fin 9007199254740992"
proof -
  have "takeWhile digit ''9007199254740993'' = ''9007199254740993''"
       "digits_value ''9007199254740993'' = 9007199254740993"
    by code_simp+
  then show ?thesis
    by (simp add: parseInt_def round_dbl_eval [where e = 53] pow2_def round_half_even_def
        signed_def)
qed

lemma digits_value_zeros:
  "foldl (\<lambda>n c. 10 * n + digit_value c) acc (replicate k CHR ''0'') = acc * 10 ^ k"
  by (induction k arbitrary: acc) (simp_all add: digit_value_def)

lemma parseInt_overflow: "parseInt (CHR ''1'' # replicate 309 CHR ''0'') = PInf"
proof -
  have "digit CHR ''1''" "digit CHR ''0''"
    by code_simp+
  then have "list_all digit (CHR ''1'' # replicate 309 CHR ''0'')"
    by (simp add: list_all_iff)
  then have rounds: "parseInt (CHR ''1'' # replicate 309 CHR ''0'') =
      to_jsnum (round_dbl False (of_int (digits_value (CHR ''1'' # replicate 309 CHR ''0''))))"
    by (intro parseInt_rounds) simp
  have "digit_value CHR ''1'' = 1"
    by (simp add: digit_value_def)
  then have v: "digits_value (CHR ''1'' # replicate 309 CHR ''0'') = 10 ^ 309"
    by (simp add: digits_value_def digits_value_zeros)
  have "pow2 1024 \<le> of_int (10 ^ 309)"
    by (simp add: pow2_def)
  then have "round_dbl False (of_int (10 ^ 309)) = DInf False"
    by (rule round_dbl_overflow)
  then show ?thesis
    unfolding rounds v by simp
qed

text \<open>
  So the common-log branch returns entries whose status and bytes are integers that are
  not negative, or \<open>Infinity\<close>.
\<close>

lemma parseCommonLog_integers:
  assumes "parseCommonLog random line = Some e"
  shows "\<exists>x y. status e = JNum x \<and> bytes e = JNum y \<and>
               ((\<exists>n. x = Fin (of_int n) \<and> 0 \<le> n) \<or> x = PInf) \<and>
               ((\<exists>m. y = Fin (of_int m) \<and> 0 \<le> m) \<or> y = PInf)"
proof -
  from assms obtain m1 m2 m3 m4 m5 m6 m7 where
    caps: "rx_match_start False commonLogPattern line = Some [m1, m2, m3, m4, m5, m6, m7]"
    and e: "status e = JNum (parseInt m5)" "bytes e = JNum (parseInt m6)"
    by (auto simp: parseCommonLog_def split: option.splits list.splits)
  from caps obtain t r where "(t, r, [m1, m2, m3, m4, m5, m6, m7]) \<in>
      set (rx_run False commonLogPattern line [])"
    by (auto simp: rx_match_start_def split: list.splits)
  from commonLogPattern_captures [OF this]
  have "m5 \<noteq> []" "list_all digit m5" "m6 \<noteq> []" "list_all digit m6"
    by auto
  with parseInt_digits [of m5] parseInt_digits [of m6] e show ?thesis
    by simp
qed

text \<open>
  The JSON branch returns an entry for every parsed value but \<open>null\<close>, whatever
  members the value has, unless the date constructor throws on its \<open>timestamp\<close>.
\<close>

lemma parseJsonLog_unchecked:
  assumes "JSON_parse line = Some v" "v \<noteq> JNull" "v \<noteq> JUndefined"
      and "\<not> date_throws (the (get_property v ''timestamp''))"
  shows "parseJsonLog JSON_parse line =
           Some \<lparr>timestamp = NewDate (the (get_property v ''timestamp'')),
                  ip = the (get_property v ''ip''),
                  http_method = the (get_property v ''method''),
                  path = the (get_property v ''path''),
                  status = the (get_property v ''status''),
                  bytes = the (get_property v ''bytes''),
                  userAgent = the (get_property v ''user_agent''),
                  responseTime = the (get_property v ''response_time'')\<rparr>"
  using assms by (cases v) (simp_all add: parseJsonLog_def)

lemma parseJsonLog_date_throws:
  assumes "JSON_parse line = Some v" "date_throws (the (get_property v ''timestamp''))"
  shows "parseJsonLog JSON_parse line = None"
  using assms by (cases v) (simp_all add: parseJsonLog_def)

text \<open>
  So for \<^verbatim>\<open>{"timestamp":{"toString":1},"status":200}\<close> and for
  \<^verbatim>\<open>{"timestamp":[[{"toString":null}]]}\<close> the JSON branch returns \<open>null\<close>.
\<close>

lemma parseJsonLog_date_throws_example:
  "parseJsonLog (\<lambda>line. Some (JObj [(''timestamp'', JObj [(''toString'', JNum (Fin 1))]),
                                      (''status'', JNum (Fin 200))])) line = None \<and>
   parseJsonLog (\<lambda>line. Some (JObj [(''timestamp'',
                                       JArr [JArr [JObj [(''toString'', JNull)]]])])) line = None"
  by (simp add: parseJsonLog_def)

text \<open>
  Two calls of \<open>parseCommonLog\<close> on one line agree on whether the line is accepted and on
  every field but \<open>responseTime\<close>, which is an integer from 0 to 499.
\<close>

lemma parseCommonLog_responseTime_only:
  assumes "parseCommonLog r1 line = Some e1"
  shows "\<exists>e2. parseCommonLog r2 line = Some e2 \<and>
              e2 = e1\<lparr>responseTime := JNum (Fin (of_int \<lfloor>r2 * 500\<rfloor>))\<rparr>"
  using assms
  by (auto simp: parseCommonLog_def split: option.splits list.splits)

lemma parseCommonLog_responseTime_range:
  assumes "parseCommonLog r line = Some e" "0 \<le> r" "r < 1"
  shows "\<exists>n. responseTime e = JNum (Fin (of_int n)) \<and> 0 \<le> n \<and> n < 500"
proof -
  from assms(1) have "responseTime e = JNum (Fin (of_int \<lfloor>r * 500\<rfloor>))"
    by (auto simp: parseCommonLog_def split: option.splits list.splits)
  moreover from assms(2,3) have "0 \<le> \<lfloor>r * 500\<rfloor>" "\<lfloor>r * 500\<rfloor> < 500"
    by (simp_all add: floor_less_iff)
  ultimately show ?thesis
    by blast
qed

text \<open>
  Claim C2 fails on the code: the line \<open>{}\<close> is not in the common-log format, the
  platform parses it to the empty object, and the JSON branch returns an entry whose
  fields are all \<open>undefined\<close>, the status and the bytes included, where the claim has
  \<open>null\<close>.
\<close>

theorem parse_line_partial_record:
  "JSON_parse ''{}'' = Some (JObj []) \<Longrightarrow>
     parse_line JSON_parse random ''{}'' =
       Some \<lparr>timestamp = NewDate JUndefined, ip = JUndefined, http_method = JUndefined,
              path = JUndefined, status = JUndefined, bytes = JUndefined,
              userAgent = JUndefined, responseTime = JUndefined\<rparr>"
  by (simp add: parse_line_def parseCommonLog_rejects_braces parseJsonLog_def)

text \<open>
  With a \<open>JSON.parse\<close> that reads \<open>{}\<close> as the empty object.
\<close>

theorem parse_line_partial_record_witness:
  "parse_line (\<lambda>line. if line = ''{}'' then Some (JObj []) else None) 0 ''{}'' =
       Some \<lparr>timestamp = NewDate JUndefined, ip = JUndefined, http_method = JUndefined,
              path = JUndefined, status = JUndefined, bytes = JUndefined,
              userAgent = JUndefined, responseTime = JUndefined\<rparr>"
  using parse_line_partial_record [of "\<lambda>line. if line = ''{}'' then Some (JObj []) else None" 0]
  by simp

end
